theory Spec2Isabelle
  imports Complex_Main "HOL-Library.AList"
begin

section \<open>Python strings (ASCII) and the column-name normaliser\<close>

text \<open>
  Column labels are modelled as ASCII strings: a \<^typ>\<open>char\<close> is one code point below 128.
  The three character classes below are Python's \<^verbatim>\<open>str.isspace\<close>, \<^verbatim>\<open>str.isalnum\<close> and
  \<^verbatim>\<open>str.lower\<close> restricted to that range; a \<^typ>\<open>char\<close> above 127 is treated as a
  symbol (neither space nor alphanumeric, unchanged by \<open>lower\<close>).
\<close>

definition isspace :: "char \<Rightarrow> bool" where
  "isspace c = (let n = (of_char c :: nat) in (9 \<le> n \<and> n \<le> 13) \<or> (28 \<le> n \<and> n \<le> 32))"

definition isupper :: "char \<Rightarrow> bool" where
  "isupper c = (let n = (of_char c :: nat) in 65 \<le> n \<and> n \<le> 90)"

definition islower :: "char \<Rightarrow> bool" where
  "islower c = (let n = (of_char c :: nat) in 97 \<le> n \<and> n \<le> 122)"

definition isdigit :: "char \<Rightarrow> bool" where
  "isdigit c = (let n = (of_char c :: nat) in 48 \<le> n \<and> n \<le> 57)"

definition isalnum :: "char \<Rightarrow> bool" where
  "isalnum c = (isdigit c \<or> isupper c \<or> islower c)"

definition lower_char :: "char \<Rightarrow> char" where
  "lower_char c = (if isupper c then char_of (of_char c + (32 :: nat)) else c)"

definition upper_char :: "char \<Rightarrow> char" where
  "upper_char c = (if islower c then char_of (of_char c - (32 :: nat)) else c)"

definition py_lower :: "string \<Rightarrow> string" where
  "py_lower s = map lower_char s"

definition py_upper :: "string \<Rightarrow> string" where
  "py_upper s = map upper_char s"

definition py_strip :: "string \<Rightarrow> string" where
  "py_strip s = rev (dropWhile isspace (rev (dropWhile isspace s)))"

definition py_replace_char :: "char \<Rightarrow> char \<Rightarrow> string \<Rightarrow> string" where
  "py_replace_char a b s = map (\<lambda>c. if c = a then b else c) s"

text \<open>
  The loop body of \<^verbatim>\<open>CSVCleaner.standardize_column_names\<close>:
  \<^verbatim>\<open>new_col = str(col).lower().strip()\<close>,
  \<^verbatim>\<open>new_col = new_col.replace(' ', '_')\<close>,
  \<^verbatim>\<open>new_col = ''.join(c for c in new_col if c.isalnum() or c == '_')\<close>.
\<close>

definition standardize_name :: "string \<Rightarrow> string" where
  "standardize_name col =
     (let new_col = py_strip (py_lower col);
          new_col = py_replace_char (CHR '' '') (CHR ''_'') new_col
      in filter (\<lambda>c. isalnum c \<or> c = CHR ''_'') new_col)"


section \<open>Python and NumPy numbers\<close>

text \<open>
  Floating-point numbers are idealised: a finite float is a real number, and the three special
  values of IEEE-754 are kept, because the source reaches them (NumPy answers a division by
  zero with \<open>nan\<close> or \<open>inf\<close> and a warning, where Python's own \<^verbatim>\<open>int / int\<close> raises).
  Rounding error and overflow are not modelled.
\<close>

datatype py_error = ZeroDivisionError | KeyError | TypeError | AttributeError

datatype npfloat = Finite real | PosInf | NegInf | NaN

definition np_true_divide :: "int \<Rightarrow> int \<Rightarrow> npfloat" where
  \<comment> \<open>\<^verbatim>\<open>a / b\<close> where \<open>a\<close> is a NumPy integer scalar\<close>
  "np_true_divide a b =
     (if b = 0 then (if a = 0 then NaN else if 0 < a then PosInf else NegInf)
      else Finite (real_of_int a / real_of_int b))"

definition py_true_divide :: "int \<Rightarrow> int \<Rightarrow> py_error + real" where
  \<comment> \<open>\<^verbatim>\<open>a / b\<close> on two Python integers\<close>
  "py_true_divide a b =
     (if b = 0 then Inl ZeroDivisionError else Inr (real_of_int a / real_of_int b))"

fun np_neg :: "npfloat \<Rightarrow> npfloat" where
  "np_neg (Finite x) = Finite (- x)"
| "np_neg PosInf = NegInf"
| "np_neg NegInf = PosInf"
| "np_neg NaN = NaN"

fun np_add :: "npfloat \<Rightarrow> npfloat \<Rightarrow> npfloat" where
  "np_add (Finite x) (Finite y) = Finite (x + y)"
| "np_add NaN _ = NaN"
| "np_add _ NaN = NaN"
| "np_add PosInf NegInf = NaN"
| "np_add NegInf PosInf = NaN"
| "np_add PosInf _ = PosInf"
| "np_add _ PosInf = PosInf"
| "np_add NegInf _ = NegInf"
| "np_add _ NegInf = NegInf"

definition np_sub :: "npfloat \<Rightarrow> npfloat \<Rightarrow> npfloat" where
  "np_sub x y = np_add x (np_neg y)"

definition np_sign_inf :: "bool \<Rightarrow> npfloat" where
  "np_sign_inf positive = (if positive then PosInf else NegInf)"

fun np_mul :: "npfloat \<Rightarrow> npfloat \<Rightarrow> npfloat" where
  "np_mul (Finite x) (Finite y) = Finite (x * y)"
| "np_mul NaN _ = NaN"
| "np_mul _ NaN = NaN"
| "np_mul (Finite x) PosInf = (if x = 0 then NaN else np_sign_inf (0 < x))"
| "np_mul (Finite x) NegInf = (if x = 0 then NaN else np_sign_inf (x < 0))"
| "np_mul PosInf (Finite y) = (if y = 0 then NaN else np_sign_inf (0 < y))"
| "np_mul NegInf (Finite y) = (if y = 0 then NaN else np_sign_inf (y < 0))"
| "np_mul PosInf PosInf = PosInf"
| "np_mul NegInf NegInf = PosInf"
| "np_mul PosInf NegInf = NegInf"
| "np_mul NegInf PosInf = NegInf"

fun np_gt :: "npfloat \<Rightarrow> real \<Rightarrow> bool" where
  \<comment> \<open>\<^verbatim>\<open>x > c\<close>: every comparison with \<open>nan\<close> is false\<close>
  "np_gt (Finite x) c = (c < x)"
| "np_gt PosInf c = True"
| "np_gt NegInf c = False"
| "np_gt NaN c = False"

fun np_ge :: "npfloat \<Rightarrow> npfloat \<Rightarrow> bool" where
  \<comment> \<open>\<^verbatim>\<open>x >= y\<close>\<close>
  "np_ge NaN _ = False"
| "np_ge _ NaN = False"
| "np_ge (Finite x) (Finite y) = (y \<le> x)"
| "np_ge PosInf _ = True"
| "np_ge _ NegInf = True"
| "np_ge _ PosInf = False"
| "np_ge NegInf _ = False"

definition py_max0 :: "npfloat \<Rightarrow> npfloat" where
  \<comment> \<open>the builtin \<^verbatim>\<open>max(0, x)\<close>: \<open>x\<close> replaces \<open>0\<close> only when \<^verbatim>\<open>x > 0\<close> holds\<close>
  "py_max0 x = (if np_gt x 0 then x else Finite 0)"

definition round_half_even :: "real \<Rightarrow> int" where
  "round_half_even x =
     (let f = \<lfloor>x\<rfloor>; d = x - of_int f
      in if d < 1 / 2 then f else if 1 / 2 < d then f + 1 else if even f then f else f + 1)"

definition py_round :: "nat \<Rightarrow> real \<Rightarrow> real" where
  \<comment> \<open>\<^verbatim>\<open>round(x, nd)\<close> on a finite float\<close>
  "py_round nd x = of_int (round_half_even (x * 10 ^ nd)) / 10 ^ nd"

fun np_round :: "nat \<Rightarrow> npfloat \<Rightarrow> npfloat" where
  "np_round nd (Finite x) = Finite (py_round nd x)"
| "np_round nd PosInf = PosInf"
| "np_round nd NegInf = NegInf"
| "np_round nd NaN = NaN"

section \<open>The table abstraction (a pandas DataFrame)\<close>

text \<open>
  A frame is an ordered list of labelled, typed columns over a list of rows. \<open>Null\<close> stands
  for every missing marker of pandas (\<open>NaN\<close>, \<open>None\<close>, \<open>NaT\<close>). A frame may have rows and no
  columns, as in pandas, since the row index exists on its own.
\<close>

datatype dtype = ObjectDT | Int64DT | Float64DT | BoolDT | Datetime64DT

datatype cell = Null | Num real | Str string | Flag bool | Stamp int

record dataframe =
  columns :: "(string \<times> dtype) list"
  rows :: "cell list list"

definition wf_df :: "dataframe \<Rightarrow> bool" where
  "wf_df d = list_all (\<lambda>r. length r = length (columns d)) (rows d)"

definition df_len :: "dataframe \<Rightarrow> nat" where
  "df_len d = length (rows d)"

definition df_empty :: "dataframe \<Rightarrow> bool" where
  \<comment> \<open>\<^verbatim>\<open>DataFrame.empty\<close>: some axis has length 0\<close>
  "df_empty d = (length (rows d) = 0 \<or> length (columns d) = 0)"

definition col_names :: "dataframe \<Rightarrow> string list" where
  "col_names d = map fst (columns d)"

definition col_cells :: "dataframe \<Rightarrow> nat \<Rightarrow> cell list" where
  \<comment> \<open>the Series at column position \<open>j\<close>\<close>
  "col_cells d j = map (\<lambda>r. r ! j) (rows d)"

definition col_dtype :: "dataframe \<Rightarrow> nat \<Rightarrow> dtype" where
  "col_dtype d j = snd (columns d ! j)"

definition col_name :: "dataframe \<Rightarrow> nat \<Rightarrow> string" where
  "col_name d j = fst (columns d ! j)"

definition col_positions :: "dataframe \<Rightarrow> nat list" where
  "col_positions d = [0..<length (columns d)]"

definition is_number_dtype :: "dtype \<Rightarrow> bool" where
  \<comment> \<open>\<^verbatim>\<open>select_dtypes(include=[np.number])\<close>: integers and floats, not booleans\<close>
  "is_number_dtype t = (t = Int64DT \<or> t = Float64DT)"

definition numeric_positions :: "dataframe \<Rightarrow> nat list" where
  "numeric_positions d = filter (\<lambda>j. is_number_dtype (col_dtype d j)) (col_positions d)"

definition object_positions :: "dataframe \<Rightarrow> nat list" where
  "object_positions d = filter (\<lambda>j. col_dtype d j = ObjectDT) (col_positions d)"

definition isna_sum :: "cell list \<Rightarrow> nat" where
  \<comment> \<open>\<^verbatim>\<open>series.isna().sum()\<close>\<close>
  "isna_sum xs = length (filter (\<lambda>c. c = Null) xs)"

definition notna_sum :: "cell list \<Rightarrow> nat" where
  "notna_sum xs = length (filter (\<lambda>c. c \<noteq> Null) xs)"

definition dropna :: "cell list \<Rightarrow> cell list" where
  "dropna xs = filter (\<lambda>c. c \<noteq> Null) xs"

definition nunique :: "cell list \<Rightarrow> nat" where
  \<comment> \<open>\<^verbatim>\<open>series.nunique()\<close>: distinct values, missing ones not counted\<close>
  "nunique xs = length (remdups (dropna xs))"

definition df_isna_sum_sum :: "dataframe \<Rightarrow> nat" where
  \<comment> \<open>\<^verbatim>\<open>df.isna().sum().sum()\<close>\<close>
  "df_isna_sum_sum d = sum_list (map (\<lambda>j. isna_sum (col_cells d j)) (col_positions d))"

definition numbers :: "cell list \<Rightarrow> real list" where
  \<comment> \<open>the values of a numeric Series, missing ones skipped\<close>
  "numbers xs = concat (map (\<lambda>c. case c of Num x \<Rightarrow> [x] | _ \<Rightarrow> []) xs)"

definition np_mean :: "real list \<Rightarrow> npfloat" where
  "np_mean xs = (if xs = [] then NaN else Finite (sum_list xs / real (length xs)))"

definition sum_sq_dev :: "real list \<Rightarrow> real" where
  "sum_sq_dev xs =
     (let m = sum_list xs / real (length xs) in sum_list (map (\<lambda>x. (x - m)\<^sup>2) xs))"

definition np_std :: "real list \<Rightarrow> npfloat" where
  \<comment> \<open>\<^verbatim>\<open>series.std()\<close>: the sample standard deviation (\<open>n - 1\<close>), \<open>nan\<close> below two values\<close>
  "np_std xs =
     (if length xs < 2 then NaN else Finite (sqrt (sum_sq_dev xs / real (length xs - 1))))"

subsection \<open>Duplicate rows\<close>

datatype keep = KeepFirst | KeepLast | KeepNone

fun marks_first :: "'a list \<Rightarrow> 'a list \<Rightarrow> bool list" where
  "marks_first seen [] = []"
| "marks_first seen (r # rs) = (r \<in> set seen) # marks_first (r # seen) rs"

definition duplicated_marks :: "keep \<Rightarrow> 'a list \<Rightarrow> bool list" where
  \<comment> \<open>which entries \<^verbatim>\<open>duplicated(keep=...)\<close> marks: all but the first occurrence, all but
      the last, or every member of a group of two or more\<close>
  "duplicated_marks k rs =
     (case k of
        KeepFirst \<Rightarrow> marks_first [] rs
      | KeepLast \<Rightarrow> rev (marks_first [] (rev rs))
      | KeepNone \<Rightarrow> map (\<lambda>r. 1 < count_list rs r) rs)"

definition df_duplicated :: "keep \<Rightarrow> dataframe \<Rightarrow> bool list" where
  \<comment> \<open>\<^verbatim>\<open>df.duplicated(keep=...)\<close>; pandas answers an empty Series for an empty frame\<close>
  "df_duplicated k d = (if df_empty d then [] else duplicated_marks k (rows d))"

definition count_true :: "bool list \<Rightarrow> nat" where
  "count_true bs = length (filter id bs)"


section \<open>Type inference (utils.py)\<close>

text \<open>
  \<^verbatim>\<open>pd.to_numeric(..., errors='coerce')\<close> and \<^verbatim>\<open>pd.to_datetime(..., errors='coerce')\<close> belong
  to pandas, so the functions that call them take them as arguments: a coercion maps a Series
  to the coerced Series (\<open>Null\<close> where a value did not convert), or to the message of the
  exception it raised.
\<close>

type_synonym coercion = "cell list \<Rightarrow> string + cell list"

definition coerced_ok :: "coercion \<Rightarrow> cell list \<Rightarrow> bool" where
  \<comment> \<open>the \<^verbatim>\<open>try\<close> block of \<^verbatim>\<open>infer_column_type\<close>: an exception falls through
      (\<^verbatim>\<open>except: pass\<close>), otherwise \<^verbatim>\<open>coerced.notna().sum() / len(non_null) > 0.8\<close>\<close>
  "coerced_ok coerce non_null =
     (case coerce non_null of
        Inl _ \<Rightarrow> False
      | Inr ys \<Rightarrow> 8 / 10 < real (notna_sum ys) / real (length non_null))"

definition infer_column_type :: "coercion \<Rightarrow> coercion \<Rightarrow> cell list \<Rightarrow> string" where
  "infer_column_type to_numeric to_datetime series =
     (let non_null = dropna series
      in if length non_null = 0 then ''unknown''
         else if coerced_ok to_numeric non_null then ''numeric''
         else if coerced_ok to_datetime non_null then ''datetime''
         else
           (let unique_ratio = real (length (remdups non_null)) / real (length non_null)
            in if unique_ratio < 5 / 100 \<or> length (remdups non_null) < 20
               then ''categorical'' else ''text''))"

section \<open>Validation (validator.py)\<close>

text \<open>A Python value of the kinds the reports hold; a dictionary keeps its insertion order.\<close>

datatype pyval = PyInt int | PyFloat npfloat | PyDict "(string \<times> pyval) list"

definition detect_duplicates :: "dataframe \<Rightarrow> py_error + (string \<times> pyval) list" where
  "detect_duplicates d =
     (let duplicate_count = int (count_true (df_duplicated KeepNone d))
      in case py_true_divide (100 * duplicate_count) (int (df_len d)) of
           Inl e \<Rightarrow> Inl e
         | Inr pct \<Rightarrow>
             Inr [(''duplicate_count'', PyInt duplicate_count),
                  (''duplicate_percentage'', PyFloat (Finite (py_round 2 pct))),
                  (''duplicate_rows'',
                     PyInt (if 0 < duplicate_count
                            then int (count_true (df_duplicated KeepNone d)) div 2 else 0))])"

fun null_dist_loop ::
  "dataframe \<Rightarrow> nat list \<Rightarrow> (string \<times> pyval) list \<Rightarrow> py_error + (string \<times> pyval) list" where
  "null_dist_loop d [] null_dist = Inr null_dist"
| "null_dist_loop d (j # js) null_dist =
     (let null_count = int (isna_sum (col_cells d j))
      in case py_true_divide (100 * null_count) (int (df_len d)) of
           Inl e \<Rightarrow> Inl e
         | Inr pct \<Rightarrow>
             null_dist_loop d js
               (AList.update (col_name d j)
                  (PyDict [(''null_count'', PyInt null_count),
                           (''null_percentage'', PyFloat (Finite (py_round 2 pct))),
                           (''non_null_count'', PyInt (int (df_len d) - null_count))])
                  null_dist))"

definition validator_get_null_distribution :: "dataframe \<Rightarrow> py_error + (string \<times> pyval) list" where
  \<comment> \<open>\<^verbatim>\<open>CSVValidator.get_null_distribution\<close>\<close>
  "validator_get_null_distribution d =
     (let total_cells = int (df_len d) * int (length (columns d))
      in case null_dist_loop d (col_positions d) [] of
           Inl e \<Rightarrow> Inl e
         | Inr null_dist \<Rightarrow>
             Inr (AList.update ''total''
                    (PyDict [(''null_count'', PyInt (int (df_isna_sum_sum d))),
                             (''null_percentage'',
                                PyFloat (np_round 2
                                  (np_true_divide (100 * int (df_isna_sum_sum d)) total_cells)))])
                    null_dist))"

text \<open>
  An anomaly carries its kind and column and the numbers the source stores with it; the
  \<open>message\<close> text and the \<^verbatim>\<open>str(...)\<close> of the constant value are formatting and are left out.
\<close>

datatype anomaly =
    Constant_column string cell
  | High_null_percentage string npfloat
  | High_variance string npfloat npfloat

definition iloc0 :: "cell list \<Rightarrow> cell" where
  \<comment> \<open>\<^verbatim>\<open>series.iloc[0]\<close>, read only where the Series has a value\<close>
  "iloc0 xs = (case xs of [] \<Rightarrow> Null | x # _ \<Rightarrow> x)"

fun cv_exceeds_2 :: "npfloat \<Rightarrow> npfloat \<Rightarrow> bool" where
  \<comment> \<open>\<^verbatim>\<open>mean != 0 and std / abs(mean) > 2\<close>\<close>
  "cv_exceeds_2 NaN mean = False"
| "cv_exceeds_2 std NaN = False"
| "cv_exceeds_2 NegInf mean = False"
| "cv_exceeds_2 (Finite s) (Finite m) = (m \<noteq> 0 \<and> 2 < s / \<bar>m\<bar>)"
| "cv_exceeds_2 (Finite s) mean = False"
| "cv_exceeds_2 PosInf (Finite m) = (m \<noteq> 0)"
| "cv_exceeds_2 PosInf mean = False"

definition detect_anomalies :: "dataframe \<Rightarrow> anomaly list" where
  "detect_anomalies d =
     concat (map (\<lambda>j.
        if nunique (col_cells d j) = 1
        then [Constant_column (col_name d j) (iloc0 (col_cells d j))] else [])
       (col_positions d))
     @ concat (map (\<lambda>j.
        let null_pct = np_true_divide (100 * int (isna_sum (col_cells d j))) (int (df_len d))
        in if np_gt null_pct 50
           then [High_null_percentage (col_name d j) (np_round 2 null_pct)] else [])
       (col_positions d))
     @ concat (map (\<lambda>j.
        if 0 < length (dropna (col_cells d j))
        then (let std = np_std (numbers (col_cells d j));
                  mean = np_mean (numbers (col_cells d j))
              in if cv_exceeds_2 std mean
                 then [High_variance (col_name d j) (np_round 2 std) (np_round 2 mean)]
                 else [])
        else [])
       (numeric_positions d))"

record quality_score =
  overall_score :: npfloat
  null_score :: npfloat
  duplicate_score :: npfloat
  type_score :: npfloat
  anomaly_score :: npfloat
  issues_count :: int

definition type_issue :: "coercion \<Rightarrow> dataframe \<Rightarrow> nat \<Rightarrow> bool" where
  \<comment> \<open>one pass of the type-consistency loop: the coerced Series is dropped, and the
      percentage is taken from \<^verbatim>\<open>self.df[col].isna()\<close>, the column as it is\<close>
  "type_issue to_numeric d j =
     (col_dtype d j = ObjectDT \<and>
      (case to_numeric (col_cells d j) of
         Inl _ \<Rightarrow> False
       | Inr _ \<Rightarrow>
           (let non_numeric_pct =
                  np_true_divide (100 * int (isna_sum (col_cells d j))) (int (df_len d))
            in np_gt non_numeric_pct 10)))"

definition type_issues :: "coercion \<Rightarrow> dataframe \<Rightarrow> nat" where
  "type_issues to_numeric d = length (filter (type_issue to_numeric d) (col_positions d))"

definition get_data_quality_score :: "coercion \<Rightarrow> dataframe \<Rightarrow> quality_score" where
  "get_data_quality_score to_numeric d =
     (let total_cells = int (df_len d) * int (length (columns d));
          null_pct = np_true_divide (100 * int (df_isna_sum_sum d)) total_cells;
          null_score = py_max0 (np_sub (Finite 100) null_pct);
          dup_pct = (if 0 < df_len d
                     then np_true_divide (100 * int (count_true (df_duplicated KeepFirst d)))
                            (int (df_len d))
                     else Finite 0);
          dup_score = py_max0 (np_sub (Finite 100) dup_pct);
          type_score = max 0 (100 - int (type_issues to_numeric d) * 10);
          anomalies = detect_anomalies d;
          anomaly_score = max 0 (100 - int (length anomalies) * 15);
          overall =
            np_add (np_add (np_add (np_mul null_score (Finite (3 / 10)))
                                   (np_mul dup_score (Finite (2 / 10))))
                           (np_mul (Finite (of_int type_score)) (Finite (2 / 10))))
                   (np_mul (Finite (of_int anomaly_score)) (Finite (3 / 10)))
      in \<lparr> overall_score = np_round 2 overall,
           null_score = np_round 2 null_score,
           duplicate_score = np_round 2 dup_score,
           type_score = np_round 2 (Finite (of_int type_score)),
           anomaly_score = np_round 2 (Finite (of_int anomaly_score)),
           issues_count = int (length anomalies) + (if np_gt dup_pct 0 then 1 else 0)
                          + (if np_gt null_pct 0 then 1 else 0) \<rparr>)"

section \<open>Profiling (analyzer.py)\<close>

fun analyzer_null_dist_loop ::
  "dataframe \<Rightarrow> nat list \<Rightarrow> (string \<times> pyval) list \<Rightarrow> (string \<times> pyval) list" where
  "analyzer_null_dist_loop d [] null_dist = null_dist"
| "analyzer_null_dist_loop d (j # js) null_dist =
     (let null_count = int (isna_sum (col_cells d j))
      in analyzer_null_dist_loop d js
           (AList.update (col_name d j)
              (PyDict [(''null_count'', PyInt null_count),
                       (''null_percentage'',
                          PyFloat (np_round 2 (np_true_divide (100 * null_count) (int (df_len d))))),
                       (''non_null_count'', PyInt (int (df_len d) - null_count)),
                       (''non_null_percentage'',
                          PyFloat (np_round 2
                            (np_true_divide (100 * (int (df_len d) - null_count))
                               (int (df_len d)))))])
              null_dist))"

definition analyzer_get_null_distribution :: "dataframe \<Rightarrow> (string \<times> pyval) list" where
  \<comment> \<open>\<^verbatim>\<open>CSVAnalyzer.get_null_distribution\<close>: here \<open>null_count\<close> stays a NumPy integer\<close>
  "analyzer_get_null_distribution d = analyzer_null_dist_loop d (col_positions d) []"


subsection \<open>Correlation\<close>

text \<open>
  \<^verbatim>\<open>DataFrame.corr()\<close> (Pearson, \<^verbatim>\<open>min_periods=1\<close>) works pairwise on the rows where both
  values are present and answers \<open>nan\<close> when no such row exists or a column is constant there.
  A coefficient is a finite number or \<open>nan\<close>, written \<open>None\<close>.
\<close>

definition paired :: "cell list \<Rightarrow> cell list \<Rightarrow> (real \<times> real) list" where
  "paired xs ys =
     concat (map (\<lambda>p. case p of (Num x, Num y) \<Rightarrow> [(x, y)] | _ \<Rightarrow> []) (zip xs ys))"

definition pearson :: "cell list \<Rightarrow> cell list \<Rightarrow> real option" where
  "pearson xs ys =
     (let ps = paired xs ys; n = real (length ps)
      in if ps = [] then None
         else
           (let mx = sum_list (map fst ps) / n;
                my = sum_list (map snd ps) / n;
                cov = sum_list (map (\<lambda>(x, y). (x - mx) * (y - my)) ps);
                ssx = sum_list (map (\<lambda>(x, y). (x - mx)\<^sup>2) ps);
                ssy = sum_list (map (\<lambda>(x, y). (y - my)\<^sup>2) ps);
                divisor = sqrt (ssx * ssy)
            in if divisor \<noteq> 0 then Some (cov / divisor) else None))"

definition get_correlation_matrix :: "dataframe \<Rightarrow> (string \<times> (string \<times> real option) list) list" where
  "get_correlation_matrix d =
     (let numeric_df = numeric_positions d
      in if length numeric_df = 0 then []
         else map (\<lambda>b. (col_name d b,
                     map (\<lambda>a. (col_name d a,
                                map_option (py_round 3) (pearson (col_cells d a) (col_cells d b))))
                       numeric_df))
                numeric_df)"






section \<open>Frame operations used by the cleaner\<close>

fun col_index_from :: "nat \<Rightarrow> string list \<Rightarrow> string \<Rightarrow> nat option" where
  "col_index_from i [] c = None"
| "col_index_from i (n # ns) c = (if n = c then Some i else col_index_from (Suc i) ns c)"

definition col_index :: "dataframe \<Rightarrow> string \<Rightarrow> nat option" where
  \<comment> \<open>the position \<^verbatim>\<open>df[col]\<close> reads; \<open>None\<close> when \<^verbatim>\<open>col not in df.columns\<close>\<close>
  "col_index d c = col_index_from 0 (col_names d) c"

fun lookup_all :: "dataframe \<Rightarrow> string list \<Rightarrow> nat list option" where
  \<comment> \<open>\<^verbatim>\<open>df[columns]\<close> with a list of labels: a missing label raises \<open>KeyError\<close>\<close>
  "lookup_all d [] = Some []"
| "lookup_all d (c # cs) =
     (case col_index d c of
        None \<Rightarrow> None
      | Some j \<Rightarrow> (case lookup_all d cs of None \<Rightarrow> None | Some js \<Rightarrow> Some (j # js)))"

definition df_filter_rows :: "bool list \<Rightarrow> dataframe \<Rightarrow> dataframe" where
  \<comment> \<open>\<^verbatim>\<open>df[mask]\<close>: a new frame with the rows the mask keeps\<close>
  "df_filter_rows flags d = d\<lparr> rows := map snd (filter fst (zip flags (rows d))) \<rparr>"

definition set_column :: "nat \<Rightarrow> cell list \<Rightarrow> dataframe \<Rightarrow> dataframe" where
  \<comment> \<open>\<^verbatim>\<open>df[col] = series\<close>; a row the Series has no value for gets a missing value\<close>
  "set_column j xs d =
     d\<lparr> rows := map (\<lambda>i. (rows d ! i)[j := (if i < length xs then xs ! i else Null)])
                  [0..<length (rows d)] \<rparr>"

definition set_dtype :: "nat \<Rightarrow> dtype \<Rightarrow> dataframe \<Rightarrow> dataframe" where
  "set_dtype j t d = d\<lparr> columns := (columns d)[j := (col_name d j, t)] \<rparr>"

definition dropna_rows_all :: "dataframe \<Rightarrow> dataframe" where
  \<comment> \<open>\<^verbatim>\<open>df.dropna(how='all')\<close>\<close>
  "dropna_rows_all d = d\<lparr> rows := filter (\<lambda>r. \<not> list_all (\<lambda>c. c = Null) r) (rows d) \<rparr>"

definition dropna_columns_all :: "dataframe \<Rightarrow> dataframe" where
  \<comment> \<open>\<^verbatim>\<open>df.dropna(axis=1, how='all')\<close>\<close>
  "dropna_columns_all d =
     (let kept = filter (\<lambda>j. \<not> list_all (\<lambda>c. c = Null) (col_cells d j)) (col_positions d)
      in \<lparr> columns = map (\<lambda>j. columns d ! j) kept,
           rows = map (\<lambda>r. map (\<lambda>j. r ! j) kept) (rows d) \<rparr>)"

definition drop_duplicates :: "string list option \<Rightarrow> keep \<Rightarrow> dataframe \<Rightarrow> py_error + dataframe" where
  \<comment> \<open>\<^verbatim>\<open>df.drop_duplicates(subset=..., keep=...)\<close>; an empty frame is returned as it is\<close>
  "drop_duplicates subset_cols k d =
     (if df_empty d then Inr d
      else case subset_cols of
             None \<Rightarrow> Inr (df_filter_rows (map Not (duplicated_marks k (rows d))) d)
           | Some cs \<Rightarrow>
               (case lookup_all d cs of
                  None \<Rightarrow> Inl KeyError
                | Some js \<Rightarrow>
                    Inr (df_filter_rows
                           (map Not (duplicated_marks k (map (\<lambda>r. map (\<lambda>j. r ! j) js) (rows d))))
                           d)))"

definition rename_columns :: "(string \<Rightarrow> string) \<Rightarrow> dataframe \<Rightarrow> dataframe" where
  \<comment> \<open>\<^verbatim>\<open>df.rename(columns=mapping)\<close> where the mapping has every label as a key\<close>
  "rename_columns f d = d\<lparr> columns := map (\<lambda>(n, t). (f n, t)) (columns d) \<rparr>"

definition str_method :: "(string \<Rightarrow> string) \<Rightarrow> cell \<Rightarrow> cell" where
  \<comment> \<open>one value under \<^verbatim>\<open>series.str.<method>()\<close>: a value that is no string comes out missing\<close>
  "str_method f c = (case c of Str x \<Rightarrow> Str (f x) | _ \<Rightarrow> Null)"

fun title_from :: "bool \<Rightarrow> string \<Rightarrow> string" where
  \<comment> \<open>\<^verbatim>\<open>str.title()\<close>: upper case after a character that is no letter, lower case after a letter\<close>
  "title_from prev_cased [] = []"
| "title_from prev_cased (c # cs) =
     (if prev_cased then lower_char c else upper_char c) # title_from (isupper c \<or> islower c) cs"

definition py_title :: "string \<Rightarrow> string" where
  "py_title s = title_from False s"

subsection \<open>Filling\<close>

definition is_numeric_dtype :: "dtype \<Rightarrow> bool" where
  \<comment> \<open>\<^verbatim>\<open>pd.api.types.is_numeric_dtype\<close>: booleans count as numeric here\<close>
  "is_numeric_dtype t = (t = Int64DT \<or> t = Float64DT \<or> t = BoolDT)"

definition np_median :: "real list \<Rightarrow> npfloat" where
  "np_median xs =
     (let v = sort xs; n = length v
      in if n = 0 then NaN
         else if odd n then Finite (v ! (n div 2))
         else Finite ((v ! (n div 2 - 1) + v ! (n div 2)) / 2))"

fun str_lt :: "string \<Rightarrow> string \<Rightarrow> bool" where
  "str_lt [] [] = False"
| "str_lt [] (y # ys) = True"
| "str_lt (x # xs) [] = False"
| "str_lt (x # xs) (y # ys) = ((of_char x :: nat) < of_char y \<or> (x = y \<and> str_lt xs ys))"

definition kind_rank :: "cell \<Rightarrow> nat" where
  "kind_rank c = (case c of Null \<Rightarrow> 0 | Flag _ \<Rightarrow> 1 | Num _ \<Rightarrow> 2 | Stamp _ \<Rightarrow> 3 | Str _ \<Rightarrow> 4)"

fun cell_lt :: "cell \<Rightarrow> cell \<Rightarrow> bool" where
  \<comment> \<open>the order \<^verbatim>\<open>mode()\<close> sorts by; values of different kinds are ordered by kind, a choice
      of the model\<close>
  "cell_lt (Num a) (Num b) = (a < b)"
| "cell_lt (Str a) (Str b) = str_lt a b"
| "cell_lt (Flag a) (Flag b) = (\<not> a \<and> b)"
| "cell_lt (Stamp a) (Stamp b) = (a < b)"
| "cell_lt a b = (kind_rank a < kind_rank b)"

definition mode0 :: "cell list \<Rightarrow> cell option" where
  \<comment> \<open>\<^verbatim>\<open>series.mode()[0]\<close> when \<^verbatim>\<open>len(series.mode()) > 0\<close>: the least of the most frequent
      values\<close>
  "mode0 xs =
     (let vs = remdups (dropna xs);
          top = fold (\<lambda>v m. max (count_list xs v) m) vs 0
      in case filter (\<lambda>v. count_list xs v = top) vs of
           [] \<Rightarrow> None
         | c # cs \<Rightarrow> Some (fold (\<lambda>x m. if cell_lt x m then x else m) cs c))"

fun ffill :: "cell \<Rightarrow> cell list \<Rightarrow> cell list" where
  "ffill prev [] = []"
| "ffill prev (c # cs) = (if c = Null then prev # ffill prev cs else c # ffill c cs)"

definition fillna_value :: "cell \<Rightarrow> cell list \<Rightarrow> cell list" where
  "fillna_value v xs = map (\<lambda>c. if c = Null then v else c) xs"

definition cell_of_float :: "npfloat \<Rightarrow> cell" where
  "cell_of_float x = (case x of Finite v \<Rightarrow> Num v | _ \<Rightarrow> Null)"

definition fill_column :: "string \<Rightarrow> cell option \<Rightarrow> dtype \<Rightarrow> cell list \<Rightarrow> cell list" where
  \<comment> \<open>the \<^verbatim>\<open>if method == ... elif ...\<close> chain of \<^verbatim>\<open>fill_missing_values\<close> on one column\<close>
  "fill_column method fill_value t xs =
     (if method = ''mean''
      then (if is_numeric_dtype t then fillna_value (cell_of_float (np_mean (numbers xs))) xs else xs)
      else if method = ''median''
      then (if is_numeric_dtype t then fillna_value (cell_of_float (np_median (numbers xs))) xs
            else xs)
      else if method = ''mode''
      then (case mode0 xs of None \<Rightarrow> xs | Some m \<Rightarrow> fillna_value m xs)
      else if method = ''forward_fill'' then ffill Null xs
      else if method = ''backward_fill'' then rev (ffill Null (rev xs))
      else if method = ''value''
      then (case fill_value of None \<Rightarrow> xs | Some v \<Rightarrow> fillna_value v xs)
      else xs)"

subsection \<open>Outliers\<close>

definition quantile :: "real \<Rightarrow> cell list \<Rightarrow> npfloat" where
  \<comment> \<open>\<^verbatim>\<open>series.quantile(q)\<close>: linear interpolation over the sorted present values\<close>
  "quantile q xs =
     (let v = sort (numbers xs); n = length v
      in if n = 0 then NaN
         else
           (let pos = q * real (n - 1); lo = nat \<lfloor>pos\<rfloor>; frac = pos - real lo
            in if lo + 1 < n then Finite (v ! lo + (v ! (lo + 1) - v ! lo) * frac)
               else Finite (v ! (n - 1))))"

definition cell_float :: "cell \<Rightarrow> npfloat" where
  "cell_float c = (case c of Num x \<Rightarrow> Finite x | _ \<Rightarrow> NaN)"

definition iqr_mask :: "real \<Rightarrow> cell list \<Rightarrow> bool list" where
  "iqr_mask threshold xs =
     (let Q1 = quantile (25 / 100) xs;
          Q3 = quantile (75 / 100) xs;
          IQR = np_sub Q3 Q1;
          lower_bound = np_sub Q1 (np_mul (Finite threshold) IQR);
          upper_bound = np_add Q3 (np_mul (Finite threshold) IQR)
      in map (\<lambda>c. np_ge (cell_float c) lower_bound \<and> np_ge upper_bound (cell_float c)) xs)"

definition zscore_mask :: "real \<Rightarrow> cell list \<Rightarrow> bool list" where
  \<comment> \<open>\<^verbatim>\<open>np.abs(stats.zscore(series.fillna(series.mean()))) < threshold\<close>; the z-score divides
      by the population standard deviation, and \<open>0 / 0\<close> is \<open>nan\<close>\<close>
  "zscore_mask threshold xs =
     (case np_mean (numbers xs) of
        Finite m \<Rightarrow>
          (let vs = map (\<lambda>c. case c of Num x \<Rightarrow> x | _ \<Rightarrow> m) xs;
               mu = sum_list vs / real (length vs);
               sd = sqrt (sum_list (map (\<lambda>v. (v - mu)\<^sup>2) vs) / real (length vs))
           in map (\<lambda>v. sd \<noteq> 0 \<and> \<bar>(v - mu) / sd\<bar> < threshold) vs)
      | _ \<Rightarrow> map (\<lambda>c. False) xs)"


section \<open>The cleaning pipeline (cleaner.py)\<close>

text \<open>
  A \<^verbatim>\<open>CSVCleaner\<close> holds references to DataFrame objects, and several of its methods
  change the frame behind \<^verbatim>\<open>self.df\<close> in place. The state therefore keeps an object store
  (\<open>heap\<close>, from addresses to frames, with the next free address) beside the three
  attributes: \<open>df\<close> and \<open>original_df\<close> are addresses, \<open>changes\<close> is the list of log lines.
  A method returns the state it leaves and the exception it raised, if any: the state after
  a raise is the one reached up to that point.
\<close>

record cleaner_state =
  heap :: "nat \<Rightarrow> dataframe"
  next_addr :: nat
  df :: nat
  original_df :: nat
  changes :: "string list"

type_synonym outcome = "py_error option \<times> cleaner_state"

definition working :: "cleaner_state \<Rightarrow> dataframe" where
  \<comment> \<open>the frame \<^verbatim>\<open>self.df\<close> refers to\<close>
  "working s = heap s (df s)"

definition original :: "cleaner_state \<Rightarrow> dataframe" where
  \<comment> \<open>the frame \<^verbatim>\<open>self.original_df\<close> refers to\<close>
  "original s = heap s (original_df s)"

definition rebind_df :: "dataframe \<Rightarrow> cleaner_state \<Rightarrow> cleaner_state" where
  \<comment> \<open>\<^verbatim>\<open>self.df = <a frame pandas has just built>\<close>: a new object, then the attribute\<close>
  "rebind_df d s =
     s\<lparr> heap := (heap s)(next_addr s := d), next_addr := Suc (next_addr s), df := next_addr s \<rparr>"

definition update_df_inplace :: "(dataframe \<Rightarrow> dataframe) \<Rightarrow> cleaner_state \<Rightarrow> cleaner_state" where
  \<comment> \<open>a write into the object behind \<^verbatim>\<open>self.df\<close> (\<^verbatim>\<open>inplace=True\<close>, \<^verbatim>\<open>self.df[col] = ...\<close>)\<close>
  "update_df_inplace f s = s\<lparr> heap := (heap s)(df s := f (heap s (df s))) \<rparr>"

definition log_change :: "string \<Rightarrow> cleaner_state \<Rightarrow> cleaner_state" where
  "log_change msg s = s\<lparr> changes := changes s @ [msg] \<rparr>"

definition cleaner_init :: "(nat \<Rightarrow> dataframe) \<Rightarrow> nat \<Rightarrow> nat \<Rightarrow> cleaner_state" where
  \<comment> \<open>\<^verbatim>\<open>CSVCleaner.__init__(df)\<close> in a store \<open>h\<close> whose next free address is \<open>n\<close>, the
      argument being the object at address \<open>a\<close>: two copies are made\<close>
  "cleaner_init h n a =
     \<lparr> heap = h(n := h a, Suc n := h a), next_addr = Suc (Suc n),
       df = n, original_df = Suc n, changes = [] \<rparr>"

definition reset :: "cleaner_state \<Rightarrow> cleaner_state" where
  "reset s = (rebind_df (heap s (original_df s)) s)\<lparr> changes := [] \<rparr>"

function str_of_nat :: "nat \<Rightarrow> string" where
  "str_of_nat n =
     (if n < 10 then [char_of (48 + n)]
      else str_of_nat (n div 10) @ [char_of (48 + n mod 10)])"
  by pat_completeness auto
termination
  by (relation "measure id") auto

declare str_of_nat.simps [simp del]

definition remove_empty_rows :: "cleaner_state \<Rightarrow> outcome" where
  "remove_empty_rows s =
     (let initial_rows = int (df_len (working s));
          s1 = rebind_df (dropna_rows_all (working s)) s;
          removed = initial_rows - int (df_len (working s1))
      in (None,
          if 0 < removed
          then log_change (''Removed '' @ str_of_nat (nat removed) @ '' completely empty rows'') s1
          else s1))"

definition remove_empty_columns :: "cleaner_state \<Rightarrow> outcome" where
  "remove_empty_columns s =
     (let initial_cols = int (length (columns (working s)));
          s1 = rebind_df (dropna_columns_all (working s)) s;
          removed = initial_cols - int (length (columns (working s1)))
      in (None,
          if 0 < removed
          then log_change
                 (''Removed '' @ str_of_nat (nat removed) @ '' completely empty columns'') s1
          else s1))"

fun str_loop :: "(string \<Rightarrow> string) \<Rightarrow> string list \<Rightarrow> cleaner_state \<Rightarrow> outcome" where
  \<comment> \<open>\<^verbatim>\<open>for col in columns: if col in self.df.columns: self.df[col] = self.df[col].str.<f>()\<close>;
      the \<^verbatim>\<open>.str\<close> accessor raises \<open>AttributeError\<close> on a column that is not of object dtype\<close>
  "str_loop f [] s = (None, s)"
| "str_loop f (col # cols) s =
     (case col_index (working s) col of
        None \<Rightarrow> str_loop f cols s
      | Some j \<Rightarrow>
          if col_dtype (working s) j \<noteq> ObjectDT then (Some AttributeError, s)
          else str_loop f cols
                 (update_df_inplace
                    (\<lambda>d. set_column j (map (str_method f) (col_cells d j)) d) s))"

definition object_columns :: "dataframe \<Rightarrow> string list" where
  \<comment> \<open>\<^verbatim>\<open>df.select_dtypes(include=['object']).columns\<close>\<close>
  "object_columns d = map (col_name d) (object_positions d)"

definition number_columns :: "dataframe \<Rightarrow> string list" where
  \<comment> \<open>\<^verbatim>\<open>df.select_dtypes(include=[np.number]).columns\<close>\<close>
  "number_columns d = map (col_name d) (numeric_positions d)"

definition trim_whitespace :: "string list option \<Rightarrow> cleaner_state \<Rightarrow> outcome" where
  "trim_whitespace columns_arg s =
     (let cols = (case columns_arg of None \<Rightarrow> object_columns (working s) | Some cs \<Rightarrow> cs)
      in case str_loop py_strip cols s of
           (Some e, s1) \<Rightarrow> (Some e, s1)
         | (None, s1) \<Rightarrow>
             (None,
              log_change
                (''Trimmed whitespace from '' @ str_of_nat (length cols) @ '' columns'') s1))"

definition remove_duplicates :: "string list option \<Rightarrow> keep \<Rightarrow> cleaner_state \<Rightarrow> outcome" where
  "remove_duplicates subset_cols k s =
     (let initial_rows = int (df_len (working s))
      in case drop_duplicates subset_cols k (working s) of
           Inl e \<Rightarrow> (Some e, s)
         | Inr d \<Rightarrow>
             (let s1 = rebind_df d s;
                  removed = initial_rows - int (df_len (working s1))
              in (None,
                  if 0 < removed
                  then log_change (''Removed '' @ str_of_nat (nat removed) @ '' duplicate rows'') s1
                  else s1)))"

fun fill_loop :: "string \<Rightarrow> cell option \<Rightarrow> string list \<Rightarrow> cleaner_state \<Rightarrow> cleaner_state" where
  \<comment> \<open>\<^verbatim>\<open>self.df[col].fillna(..., inplace=True)\<close> writes through to the frame behind
      \<^verbatim>\<open>self.df\<close>, as pandas does without copy-on-write\<close>
  "fill_loop method fill_value [] s = s"
| "fill_loop method fill_value (col # cols) s =
     (case col_index (working s) col of
        None \<Rightarrow> fill_loop method fill_value cols s
      | Some j \<Rightarrow>
          if isna_sum (col_cells (working s) j) = 0 then fill_loop method fill_value cols s
          else fill_loop method fill_value cols
                 (update_df_inplace
                    (\<lambda>d. set_column j
                            (fill_column method fill_value (col_dtype d j) (col_cells d j)) d)
                    s))"

definition isna_sum_of :: "dataframe \<Rightarrow> nat list \<Rightarrow> int" where
  \<comment> \<open>\<^verbatim>\<open>df[columns].isna().sum().sum()\<close>\<close>
  "isna_sum_of d js = int (sum_list (map (\<lambda>j. isna_sum (col_cells d j)) js))"

definition fill_missing_values ::
  "string \<Rightarrow> string list option \<Rightarrow> cell option \<Rightarrow> cleaner_state \<Rightarrow> outcome" where
  "fill_missing_values method columns_arg fill_value s =
     (let cols = (case columns_arg of None \<Rightarrow> col_names (working s) | Some cs \<Rightarrow> cs)
      in case lookup_all (working s) cols of
           None \<Rightarrow> (Some KeyError, s)
         | Some js \<Rightarrow>
             (let initial_nulls = isna_sum_of (working s) js;
                  s1 = fill_loop method fill_value cols s;
                  final_nulls = isna_sum_of (working s1) js;
                  filled = initial_nulls - final_nulls
              in (None,
                  if 0 < filled
                  then log_change
                         (''Filled '' @ str_of_nat (nat filled) @ '' missing values using ''
                          @ method) s1
                  else s1)))"

definition standardize_column_names :: "cleaner_state \<Rightarrow> outcome" where
  "standardize_column_names s =
     (None,
      log_change ''Standardized column names''
        (update_df_inplace (rename_columns standardize_name) s))"

definition normalize_text_case :: "string list option \<Rightarrow> string \<Rightarrow> cleaner_state \<Rightarrow> outcome" where
  "normalize_text_case columns_arg text_case s =
     (let cols = (case columns_arg of None \<Rightarrow> object_columns (working s) | Some cs \<Rightarrow> cs);
          looped =
            (if text_case = ''lower'' then str_loop py_lower cols s
             else if text_case = ''upper'' then str_loop py_upper cols s
             else if text_case = ''title'' then str_loop py_title cols s
             else (None, s))
      in case looped of
           (Some e, s1) \<Rightarrow> (Some e, s1)
         | (None, s1) \<Rightarrow>
             (None,
              log_change
                (''Normalized text case to '' @ text_case @ '' in '' @ str_of_nat (length cols)
                 @ '' columns'') s1))"

fun outlier_loop :: "string \<Rightarrow> real \<Rightarrow> string list \<Rightarrow> cleaner_state \<Rightarrow> outcome" where
  \<comment> \<open>the loop of \<^verbatim>\<open>remove_outliers\<close>; \<^verbatim>\<open>quantile\<close> and \<^verbatim>\<open>zscore\<close> raise \<open>TypeError\<close> on a
      column that holds no numbers\<close>
  "outlier_loop method threshold [] s = (None, s)"
| "outlier_loop method threshold (col # cols) s =
     (case col_index (working s) col of
        None \<Rightarrow> outlier_loop method threshold cols s
      | Some j \<Rightarrow>
          if method = ''iqr'' then
            (if \<not> is_number_dtype (col_dtype (working s) j) then (Some TypeError, s)
             else outlier_loop method threshold cols
                    (rebind_df
                       (df_filter_rows (iqr_mask threshold (col_cells (working s) j)) (working s))
                       s))
          else if method = ''zscore'' then
            (if \<not> is_number_dtype (col_dtype (working s) j) then (Some TypeError, s)
             else outlier_loop method threshold cols
                    (rebind_df
                       (df_filter_rows (zscore_mask threshold (col_cells (working s) j))
                          (working s))
                       s))
          else outlier_loop method threshold cols s)"

definition remove_outliers :: "string list option \<Rightarrow> string \<Rightarrow> real \<Rightarrow> cleaner_state \<Rightarrow> outcome" where
  "remove_outliers columns_arg method threshold s =
     (let cols = (case columns_arg of None \<Rightarrow> number_columns (working s) | Some cs \<Rightarrow> cs);
          initial_rows = int (df_len (working s))
      in case outlier_loop method threshold cols s of
           (Some e, s1) \<Rightarrow> (Some e, s1)
         | (None, s1) \<Rightarrow>
             (let removed = initial_rows - int (df_len (working s1))
              in (None,
                  if 0 < removed
                  then log_change
                         (''Removed '' @ str_of_nat (nat removed) @ '' outlier rows using ''
                          @ method) s1
                  else s1)))"

text \<open>
  \<^verbatim>\<open>convert_dtypes\<close> hands each column to pandas: \<^verbatim>\<open>to_numeric\<close>, \<^verbatim>\<open>to_datetime\<close> and
  \<^verbatim>\<open>astype\<close> are arguments. \<open>astype\<close> maps a target name and a typed Series to the converted
  Series with its dtype, or to the message of the exception.
\<close>

type_synonym astype_fn = "string \<Rightarrow> dtype \<times> cell list \<Rightarrow> string + dtype \<times> cell list"

definition numeric_result_dtype :: "cell list \<Rightarrow> dtype" where
  \<comment> \<open>the dtype of a \<^verbatim>\<open>to_numeric\<close> result: integers when every value is a whole number\<close>
  "numeric_result_dtype ys =
     (if list_all (\<lambda>c. case c of Num x \<Rightarrow> x = of_int \<lfloor>x\<rfloor> | _ \<Rightarrow> False) ys
      then Int64DT else Float64DT)"

fun convert_loop ::
  "coercion \<Rightarrow> coercion \<Rightarrow> astype_fn \<Rightarrow> (string \<times> string) list \<Rightarrow> cleaner_state \<Rightarrow> cleaner_state"
  where
  "convert_loop to_numeric to_datetime astype [] s = s"
| "convert_loop to_numeric to_datetime astype ((col, target) # rest) s =
     (case col_index (working s) col of
        None \<Rightarrow> convert_loop to_numeric to_datetime astype rest s
      | Some j \<Rightarrow>
          (let series = col_cells (working s) j;
               converted =
                 (if target = ''numeric''
                  then (case to_numeric series of
                          Inl msg \<Rightarrow> Inl msg
                        | Inr ys \<Rightarrow> Inr (numeric_result_dtype ys, ys))
                  else if target = ''datetime''
                  then (case to_datetime series of
                          Inl msg \<Rightarrow> Inl msg
                        | Inr ys \<Rightarrow> Inr (Datetime64DT, ys))
                  else if target \<in> set [''string'', ''object'']
                  then astype ''str'' (col_dtype (working s) j, series)
                  else astype target (col_dtype (working s) j, series))
           in case converted of
                Inl msg \<Rightarrow>
                  convert_loop to_numeric to_datetime astype rest
                    (log_change
                       (''Warning: Could not convert '' @ col @ '' to '' @ target @ '': '' @ msg)
                       s)
              | Inr (t, ys) \<Rightarrow>
                  convert_loop to_numeric to_datetime astype rest
                    (update_df_inplace (\<lambda>d. set_dtype j t (set_column j ys d)) s)))"

definition convert_dtypes ::
  "coercion \<Rightarrow> coercion \<Rightarrow> astype_fn \<Rightarrow> (string \<times> string) list \<Rightarrow> cleaner_state \<Rightarrow> outcome" where
  "convert_dtypes to_numeric to_datetime astype columns_types s =
     (None, convert_loop to_numeric to_datetime astype columns_types s)"

definition get_cleaned_df :: "cleaner_state \<Rightarrow> dataframe" where
  "get_cleaned_df s = working s"

text \<open>One call on the pipeline, and a sequence of calls. A caller may catch an exception and
  go on with the same cleaner, so a sequence runs on from the state a raising call left.\<close>

datatype clean_call =
    Remove_empty_rows
  | Remove_empty_columns
  | Trim_whitespace "string list option"
  | Remove_duplicates "string list option" keep
  | Fill_missing_values string "string list option" "cell option"
  | Standardize_column_names
  | Normalize_text_case "string list option" string
  | Remove_outliers "string list option" string real
  | Convert_dtypes "(string \<times> string) list"
  | Reset

fun call :: "coercion \<Rightarrow> coercion \<Rightarrow> astype_fn \<Rightarrow> clean_call \<Rightarrow> cleaner_state \<Rightarrow> outcome" where
  "call tn td ast Remove_empty_rows s = remove_empty_rows s"
| "call tn td ast Remove_empty_columns s = remove_empty_columns s"
| "call tn td ast (Trim_whitespace cs) s = trim_whitespace cs s"
| "call tn td ast (Remove_duplicates cs k) s = remove_duplicates cs k s"
| "call tn td ast (Fill_missing_values m cs v) s = fill_missing_values m cs v s"
| "call tn td ast Standardize_column_names s = standardize_column_names s"
| "call tn td ast (Normalize_text_case cs c) s = normalize_text_case cs c s"
| "call tn td ast (Remove_outliers cs m t) s = remove_outliers cs m t s"
| "call tn td ast (Convert_dtypes cts) s = convert_dtypes tn td ast cts s"
| "call tn td ast Reset s = (None, reset s)"

fun run_calls :: "coercion \<Rightarrow> coercion \<Rightarrow> astype_fn \<Rightarrow> clean_call list \<Rightarrow> cleaner_state \<Rightarrow> cleaner_state"
  where
  "run_calls tn td ast [] s = s"
| "run_calls tn td ast (c # cs) s = run_calls tn td ast cs (snd (call tn td ast c s))"


section \<open>Stand-ins for the pandas parsers, and example tables\<close>

text \<open>
  To run the functions on concrete tables, two small coercions stand in for the parsers of
  pandas. They accept only what pandas certainly accepts: a decimal literal (sign, digits,
  optional fraction) as a number, and \<open>YYYY-MM-DD\<close> as a date. The general theorems below do
  not use them; they hold for every coercion.
\<close>

definition digits_value :: "string \<Rightarrow> int" where
  "digits_value ds = fold (\<lambda>c n. 10 * n + (of_char c - 48)) ds 0"

definition parse_decimal :: "string \<Rightarrow> real option" where
  "parse_decimal s =
     (let negative = (s \<noteq> [] \<and> hd s = CHR ''-'');
          body = (if s \<noteq> [] \<and> (hd s = CHR ''-'' \<or> hd s = CHR ''+'') then tl s else s);
          ip = takeWhile isdigit body;
          rest = dropWhile isdigit body;
          fp = (if rest \<noteq> [] \<and> hd rest = CHR ''.'' then tl rest else [])
      in if ip \<noteq> [] \<and> (rest = [] \<or> hd rest = CHR ''.'') \<and> list_all isdigit fp
         then (let v = of_int (digits_value ip) + of_int (digits_value fp) / 10 ^ length fp
               in Some (if negative then - v else v))
         else None)"

definition numeric_cell :: "cell \<Rightarrow> cell" where
  "numeric_cell c =
     (case c of
        Null \<Rightarrow> Null
      | Num x \<Rightarrow> Num x
      | Flag b \<Rightarrow> Num (if b then 1 else 0)
      | Stamp t \<Rightarrow> Num (of_int t)
      | Str x \<Rightarrow> (case parse_decimal (py_strip x) of None \<Rightarrow> Null | Some v \<Rightarrow> Num v))"

definition numeric_parser :: coercion where
  "numeric_parser xs = Inr (map numeric_cell xs)"

definition is_iso_date :: "string \<Rightarrow> bool" where
  "is_iso_date s =
     (length s = 10 \<and> s ! 4 = CHR ''-'' \<and> s ! 7 = CHR ''-'' \<and>
      list_all isdigit (take 4 s @ take 2 (drop 5 s) @ drop 8 s))"

definition datetime_cell :: "cell \<Rightarrow> cell" where
  \<comment> \<open>the stamp of a recognised date is its digits read as one number\<close>
  "datetime_cell c =
     (case c of
        Str x \<Rightarrow>
          (if is_iso_date (py_strip x)
           then Stamp (digits_value (filter isdigit (py_strip x))) else Null)
      | Stamp t \<Rightarrow> Stamp t
      | _ \<Rightarrow> Null)"

definition datetime_parser :: coercion where
  "datetime_parser xs = Inr (map datetime_cell xs)"

definition mostly_numbers :: "cell list" where
  "mostly_numbers = [Str ''1'', Str ''2'', Str ''3'', Str ''4'', Str ''x'']"

definition mostly_dates :: "cell list" where
  "mostly_dates =
     [Str ''2024-01-01'', Str ''2024-01-02'', Str ''2024-01-03'', Str ''2024-01-04'', Str ''x'']"

definition all_numbers :: "cell list" where
  "all_numbers = [Str ''1'', Str ''2'', Str ''3'', Str ''4'', Str ''5'']"

definition all_dates :: "cell list" where
  "all_dates =
     [Str ''2024-01-01'', Str ''2024-01-02'', Str ''2024-01-03'', Str ''2024-01-04'',
      Str ''2024-01-05'']"

definition names_table :: dataframe where
  "names_table = \<lparr> columns = [(''name'', ObjectDT)],
                   rows = [[Str ''ann''], [Str ''bob''], [Str ''cy'']] \<rparr>"

definition no_rows_table :: dataframe where
  "no_rows_table = \<lparr> columns = [(''a'', ObjectDT)], rows = [] \<rparr>"

definition clean_table :: dataframe where
  "clean_table = \<lparr> columns = [(''name'', ObjectDT), (''age'', Int64DT)],
                   rows = [[Str ''ann'', Num 30], [Str ''bob'', Num 40]] \<rparr>"


section \<open>The type score as the specification words it\<close>

text \<open>
  Written from the specification, not from the code: a column counts when it is of object
  dtype and more than 10% of its values are missing after the coercion to numbers.
\<close>

definition claimed_type_issue :: "coercion \<Rightarrow> dataframe \<Rightarrow> nat \<Rightarrow> bool" where
  "claimed_type_issue to_numeric d j =
     (col_dtype d j = ObjectDT \<and>
      (case to_numeric (col_cells d j) of
         Inl _ \<Rightarrow> False
       | Inr ys \<Rightarrow> np_gt (np_true_divide (100 * int (isna_sum ys)) (int (df_len d))) 10))"

definition claimed_type_score :: "coercion \<Rightarrow> dataframe \<Rightarrow> int" where
  "claimed_type_score to_numeric d =
     max 0 (100 - 10 * int (length (filter (claimed_type_issue to_numeric d) (col_positions d))))"

section \<open>Auxiliary definitions for the proofs\<close>

text \<open>
  The rows \<open>drop_duplicates\<close> keeps with \<open>keep='first'\<close>, and the index pairs, test and
  entry behind the two loops of \<open>get_high_correlations\<close>, named so that the proofs can
  speak about them.
\<close>

definition kept_first :: "'a list \<Rightarrow> 'a list \<Rightarrow> 'a list" where
  "kept_first seen rs = map snd (filter fst (zip (map Not (marks_first seen rs)) rs))"





text \<open>
  An address \<open>a\<close> is apart from the working frame when it is allocated and is not the
  address in \<open>df\<close>; it is untouched from \<open>s\<close> to \<open>s'\<close> when the object at \<open>a\<close> is the same, \<open>a\<close>
  is still apart, and \<open>original_df\<close> still holds the same address.
\<close>

definition untouched :: "nat \<Rightarrow> cleaner_state \<Rightarrow> cleaner_state \<Rightarrow> bool" where
  "untouched a s s' =
     (heap s' a = heap s a \<and> a < next_addr s' \<and> a \<noteq> df s' \<and> original_df s' = original_df s)"

definition apart :: "nat \<Rightarrow> cleaner_state \<Rightarrow> bool" where
  "apart a s = (a < next_addr s \<and> a \<noteq> df s)"

section \<open>Further example tables\<close>

definition repeated_table :: dataframe where
  "repeated_table = \<lparr> columns = [(''k'', Int64DT), (''v'', ObjectDT)],
                      rows = [[Num 1, Str ''a''], [Num 2, Null], [Num 1, Str ''a''],
                              [Num 2, Null], [Num 1, Str ''a'']] \<rparr>"

definition repeated_cleaner :: cleaner_state where
  "repeated_cleaner = cleaner_init (\<lambda>a. repeated_table) 1 0"

definition readings_table :: dataframe where
  "readings_table = \<lparr> columns = [(''id'', ObjectDT), (''x'', Float64DT)],
                      rows = [[Str ''a'', Num 1], [Str ''b'', Num 2], [Str ''c'', Null],
                              [Str ''d'', Num 3], [Str ''e'', Num 10]] \<rparr>"

definition readings_cleaner :: cleaner_state where
  "readings_cleaner = cleaner_init (\<lambda>a. readings_table) 1 0"



section \<open>Basic facts\<close>

lemmas frame_simps = col_positions_def col_cells_def col_dtype_def col_name_def df_len_def
  df_empty_def numeric_positions_def object_positions_def is_number_dtype_def col_names_def

lemma py_round_of_int: "py_round nd (of_int k) = of_int k"
proof -
  have "of_int k * (10::real) ^ nd = of_int (k * 10 ^ nd)" by simp
  then have "round_half_even (of_int k * 10 ^ nd) = k * 10 ^ nd"
    unfolding round_half_even_def Let_def by (simp only: floor_of_int) simp
  then show ?thesis by (simp add: py_round_def)
qed

section \<open>Column names: \<open>standardize_column_names\<close> is idempotent\<close>














section \<open>Type inference: the 80% thresholds are strict\<close>

lemma coerced_ok_iff:
  assumes "non_null \<noteq> []" and "coerce non_null = Inr ys"
  shows "coerced_ok coerce non_null \<longleftrightarrow> 4 * length non_null < 5 * notna_sum ys"
proof -
  from assms(1) have pos: "0 < real (length non_null)" by simp
  have "(8 / 10 < real (notna_sum ys) / real (length non_null))
        = (real (4 * length non_null) < real (5 * notna_sum ys))"
    using pos by (simp add: pos_less_divide_eq mult.commute)
  also have "\<dots> = (4 * length non_null < 5 * notna_sum ys)"
    by (simp only: of_nat_less_iff)
  finally show ?thesis
    using assms(2) by (simp add: coerced_ok_def)
qed

lemma dropna_all_numbers: "dropna all_numbers = all_numbers"
  by (simp add: dropna_def all_numbers_def)

lemma all_numbers_coerced:
  "numeric_parser all_numbers = Inr [Num 1, Num 2, Num 3, Num 4, Num 5]"
  by code_simp

lemma all_numbers_dates:
  "datetime_parser all_numbers = Inr [Null, Null, Null, Null, Null]"
  by code_simp

lemma dropna_all_dates: "dropna all_dates = all_dates"
  by (simp add: dropna_def all_dates_def)

lemma all_dates_not_numbers:
  "numeric_parser all_dates = Inr [Null, Null, Null, Null, Null]"
  by code_simp

lemma all_dates_coerced:
  "datetime_parser all_dates
     = Inr [Stamp 20240101, Stamp 20240102, Stamp 20240103, Stamp 20240104, Stamp 20240105]"
  by code_simp

lemma dropna_mostly_numbers: "dropna mostly_numbers = mostly_numbers"
  by (simp add: dropna_def mostly_numbers_def)

lemma dropna_mostly_dates: "dropna mostly_dates = mostly_dates"
  by (simp add: dropna_def mostly_dates_def)

lemma mostly_numbers_coerced:
  "numeric_parser mostly_numbers = Inr [Num 1, Num 2, Num 3, Num 4, Null]"
  by code_simp

lemma mostly_dates_coerced:
  "datetime_parser mostly_dates
     = Inr [Stamp 20240101, Stamp 20240102, Stamp 20240103, Stamp 20240104, Null]"
  by code_simp

lemma mostly_dates_not_numbers:
  "numeric_parser mostly_dates = Inr [Null, Null, Null, Null, Null]"
  by code_simp

lemma mostly_numbers_type:
  "infer_column_type numeric_parser datetime_parser mostly_numbers = ''categorical''"
  by code_simp

lemma mostly_dates_type:
  "infer_column_type numeric_parser datetime_parser mostly_dates = ''categorical''"
  by code_simp

text \<open>
  C3 (as the code has it). For a column with at least one present value on which both
  coercions return, \<open>infer_column_type\<close> answers \<open>numeric\<close> exactly when strictly more than
  80% of the present values coerce to numbers (\<open>4 n < 5 k\<close> for \<open>k\<close> of \<open>n\<close>); when that test
  fails it answers \<open>datetime\<close> exactly when strictly more than 80% coerce to dates. At exactly
  80% neither answer is given.
\<close>

theorem infer_column_type_threshold:
  assumes "dropna series \<noteq> []"
    and "to_numeric (dropna series) = Inr ys"
    and "to_datetime (dropna series) = Inr zs"
  shows "(infer_column_type to_numeric to_datetime series = ''numeric''
            \<longleftrightarrow> 4 * length (dropna series) < 5 * notna_sum ys) \<and>
         (\<not> 4 * length (dropna series) < 5 * notna_sum ys \<longrightarrow>
            (infer_column_type to_numeric to_datetime series = ''datetime''
               \<longleftrightarrow> 4 * length (dropna series) < 5 * notna_sum zs))"
  using assms coerced_ok_iff [of "dropna series" to_numeric ys]
    coerced_ok_iff [of "dropna series" to_datetime zs]
  by (simp add: infer_column_type_def Let_def)

theorem infer_column_type_threshold_witness:
  "dropna all_numbers \<noteq> [] \<and>
   numeric_parser (dropna all_numbers) = Inr [Num 1, Num 2, Num 3, Num 4, Num 5] \<and>
   datetime_parser (dropna all_numbers) = Inr [Null, Null, Null, Null, Null] \<and>
   infer_column_type numeric_parser datetime_parser all_numbers = ''numeric'' \<and>
   dropna all_dates \<noteq> [] \<and>
   numeric_parser (dropna all_dates) = Inr [Null, Null, Null, Null, Null] \<and>
   datetime_parser (dropna all_dates)
     = Inr [Stamp 20240101, Stamp 20240102, Stamp 20240103, Stamp 20240104, Stamp 20240105] \<and>
   \<not> 4 * length (dropna all_dates) < 5 * notna_sum [Null, Null, Null, Null, Null] \<and>
   infer_column_type numeric_parser datetime_parser all_dates = ''datetime''"
proof -
  have ne: "dropna all_numbers \<noteq> []" "dropna all_dates \<noteq> []"
    by (simp_all add: dropna_def all_numbers_def all_dates_def)
  have len: "length all_numbers = 5" "length all_dates = 5"
    by (simp_all add: all_numbers_def all_dates_def)
  have cnt: "notna_sum [Num 1, Num 2, Num 3, Num 4, Num 5] = 5"
    "notna_sum [Null, Null, Null, Null, Null] = 0"
    "notna_sum [Stamp 20240101, Stamp 20240102, Stamp 20240103, Stamp 20240104, Stamp 20240105]
       = 5"
    by (simp_all add: notna_sum_def)
  from infer_column_type_threshold [of all_numbers numeric_parser
      "[Num 1, Num 2, Num 3, Num 4, Num 5]" datetime_parser "[Null, Null, Null, Null, Null]"]
  have numbers: "infer_column_type numeric_parser datetime_parser all_numbers = ''numeric''"
    using ne by (simp add: dropna_all_numbers all_numbers_coerced all_numbers_dates len cnt)
  from infer_column_type_threshold [of all_dates numeric_parser
      "[Null, Null, Null, Null, Null]" datetime_parser
      "[Stamp 20240101, Stamp 20240102, Stamp 20240103, Stamp 20240104, Stamp 20240105]"]
  have dates: "infer_column_type numeric_parser datetime_parser all_dates = ''datetime''"
    using ne by (simp add: dropna_all_dates all_dates_not_numbers all_dates_coerced len cnt)
  from numbers dates ne show ?thesis
    by (simp add: dropna_all_numbers all_numbers_coerced all_numbers_dates dropna_all_dates
        all_dates_not_numbers all_dates_coerced len cnt)
qed

text \<open>
  Four of the five values of \<open>mostly_numbers\<close> coerce to numbers, exactly 80%, and the answer
  is not \<open>numeric\<close>; no value of \<open>mostly_dates\<close> is a number, four of five are dates, and the
  answer is not \<open>datetime\<close>.
\<close>

theorem infer_column_type_boundary_counterexample:
  "dropna mostly_numbers \<noteq> [] \<and>
   numeric_parser (dropna mostly_numbers) = Inr [Num 1, Num 2, Num 3, Num 4, Null] \<and>
   5 * notna_sum [Num 1, Num 2, Num 3, Num 4, Null] = 4 * length (dropna mostly_numbers) \<and>
   infer_column_type numeric_parser datetime_parser mostly_numbers \<noteq> ''numeric'' \<and>
   dropna mostly_dates \<noteq> [] \<and>
   numeric_parser (dropna mostly_dates) = Inr [Null, Null, Null, Null, Null] \<and>
   datetime_parser (dropna mostly_dates)
     = Inr [Stamp 20240101, Stamp 20240102, Stamp 20240103, Stamp 20240104, Null] \<and>
   5 * notna_sum [Stamp 20240101, Stamp 20240102, Stamp 20240103, Stamp 20240104, Null]
     = 4 * length (dropna mostly_dates) \<and>
   infer_column_type numeric_parser datetime_parser mostly_dates \<noteq> ''datetime''"
proof -
  have "length mostly_numbers = 5" "length mostly_dates = 5"
    "mostly_numbers \<noteq> []" "mostly_dates \<noteq> []"
    by (simp_all add: mostly_numbers_def mostly_dates_def)
  then show ?thesis
    by (simp add: dropna_mostly_numbers dropna_mostly_dates mostly_numbers_coerced
        mostly_dates_coerced mostly_dates_not_numbers mostly_numbers_type mostly_dates_type
        notna_sum_def)
qed

section \<open>The quality score\<close>

lemma isna_sum_no_null:
  assumes "wf_df d" and "\<forall>r\<in>set (rows d). Null \<notin> set r" and "j < length (columns d)"
  shows "isna_sum (col_cells d j) = 0"
proof -
  have "r ! j \<noteq> Null" if "r \<in> set (rows d)" for r
  proof -
    from that assms(1) have "length r = length (columns d)"
      by (simp add: wf_df_def list_all_iff)
    with assms(3) have "r ! j \<in> set r" by simp
    with assms(2) that show ?thesis by metis
  qed
  then show ?thesis
    by (simp add: isna_sum_def col_cells_def filter_empty_conv)
qed

lemma df_isna_sum_sum_no_null:
  assumes "wf_df d" and "\<forall>r\<in>set (rows d). Null \<notin> set r"
  shows "df_isna_sum_sum d = 0"
  using isna_sum_no_null [OF assms] by (simp add: df_isna_sum_sum_def col_positions_def)

lemma marks_first_distinct:
  "distinct rs \<Longrightarrow> set seen \<inter> set rs = {} \<Longrightarrow> count_true (marks_first seen rs) = 0"
proof (induction rs arbitrary: seen)
  case Nil
  then show ?case by (simp add: count_true_def)
next
  case (Cons r rs)
  from Cons.prems have "r \<notin> set seen" and "set (r # seen) \<inter> set rs = {}" and "distinct rs"
    by auto
  with Cons.IH [of "r # seen"] show ?case
    by (simp add: count_true_def)
qed

lemma duplicated_first_distinct:
  "distinct (rows d) \<Longrightarrow> count_true (df_duplicated KeepFirst d) = 0"
  using marks_first_distinct [of "rows d" "[]"]
  by (simp add: df_duplicated_def duplicated_marks_def count_true_def)

lemma type_issues_no_null:
  assumes "wf_df d" and "\<forall>r\<in>set (rows d). Null \<notin> set r" and "rows d \<noteq> []"
  shows "type_issues to_numeric d = 0"
proof -
  have "\<not> type_issue to_numeric d j" if "j \<in> set (col_positions d)" for j
  proof -
    from that have "j < length (columns d)" by (simp add: col_positions_def)
    then have "isna_sum (col_cells d j) = 0"
      using assms(1,2) by (rule isna_sum_no_null [rotated 2])
    then show ?thesis
      using assms(3) by (simp add: type_issue_def np_true_divide_def df_len_def split: sum.split)
  qed
  then show ?thesis
    by (simp add: type_issues_def filter_empty_conv)
qed

lemma type_score_counts_missing_values:
  "type_score (get_data_quality_score to_numeric d)
     = Finite (of_int (max 0 (100 - 10 * int (type_issues to_numeric d))))"
  by (simp add: get_data_quality_score_def Let_def py_round_of_int mult.commute)

lemma names_parsed:
  "numeric_parser [Str ''ann'', Str ''bob'', Str ''cy''] = Inr [Null, Null, Null]"
  by code_simp

lemma names_table_type_score:
  "type_score (get_data_quality_score numeric_parser names_table) = Finite 100"
  using py_round_of_int [of 2 100]
  by (simp add: get_data_quality_score_def Let_def type_issues_def type_issue_def names_table_def
      frame_simps names_parsed isna_sum_def np_true_divide_def)

lemma names_table_claimed_type_score: "claimed_type_score numeric_parser names_table = 90"
  by (simp add: claimed_type_score_def claimed_type_issue_def names_table_def frame_simps
      names_parsed isna_sum_def np_true_divide_def)

text \<open>
  C1. The type score is \<open>max(0, 100 - 10 n)\<close> with \<open>n\<close> the number of object columns in which
  more than 10% of the values fail to coerce to numbers. On \<open>names_table\<close>, one object column
  of three names, every value fails to coerce, so the claimed score is 90; the code answers
  100, because it measures the missing values of the column as it is
  (\<open>type_score_counts_missing_values\<close>) and drops the coerced Series.
\<close>

theorem type_score_ignores_coercion:
  "claimed_type_score numeric_parser names_table = 90 \<and>
   type_score (get_data_quality_score numeric_parser names_table) = Finite 100"
  by (simp add: names_table_type_score names_table_claimed_type_score)

text \<open>
  C4. On a table with no rows the percentages are 0%. On \<open>no_rows_table\<close>, one column and no
  row, \<open>CSVValidator.get_null_distribution\<close> and \<open>detect_duplicates\<close> raise
  \<open>ZeroDivisionError\<close>, \<open>CSVAnalyzer.get_null_distribution\<close> answers \<open>nan\<close> percentages, and
  the quality score takes the null percentage as \<open>nan\<close>, hence a null score of 0; only the
  duplicate percentage of the quality score is guarded.
\<close>

theorem no_rows_percentages:
  "validator_get_null_distribution no_rows_table = Inl ZeroDivisionError \<and>
   detect_duplicates no_rows_table = Inl ZeroDivisionError \<and>
   analyzer_get_null_distribution no_rows_table =
     [(''a'', PyDict [(''null_count'', PyInt 0), (''null_percentage'', PyFloat NaN),
                      (''non_null_count'', PyInt 0), (''non_null_percentage'', PyFloat NaN)])] \<and>
   get_data_quality_score numeric_parser no_rows_table =
     \<lparr> overall_score = Finite 70, null_score = Finite 0, duplicate_score = Finite 100,
       type_score = Finite 100, anomaly_score = Finite 100, issues_count = 0 \<rparr>"
proof -
  have v: "validator_get_null_distribution no_rows_table = Inl ZeroDivisionError"
    by code_simp
  have dd: "detect_duplicates no_rows_table = Inl ZeroDivisionError"
    by code_simp
  have a: "analyzer_get_null_distribution no_rows_table =
     [(''a'', PyDict [(''null_count'', PyInt 0), (''null_percentage'', PyFloat NaN),
                      (''non_null_count'', PyInt 0), (''non_null_percentage'', PyFloat NaN)])]"
    by code_simp
  have q: "get_data_quality_score numeric_parser no_rows_table =
     \<lparr> overall_score = Finite 70, null_score = Finite 0, duplicate_score = Finite 100,
       type_score = Finite 100, anomaly_score = Finite 100, issues_count = 0 \<rparr>"
    using py_round_of_int [of 2 100] py_round_of_int [of 2 0] py_round_of_int [of 2 70]
    by (simp add: get_data_quality_score_def Let_def type_issues_def type_issue_def
        no_rows_table_def frame_simps isna_sum_def np_true_divide_def df_isna_sum_sum_def
        py_max0_def np_sub_def detect_anomalies_def nunique_def dropna_def numeric_parser_def)
  from v dd a q show ?thesis by simp
qed

lemma sqrt_50_le: "sqrt 50 \<le> 70"
  by (rule real_le_lsqrt) simp_all

lemma clean_table_anomalies: "detect_anomalies clean_table = []"
  using sqrt_50_le
  by (simp add: detect_anomalies_def clean_table_def frame_simps nunique_def dropna_def
      isna_sum_def np_true_divide_def numbers_def np_std_def np_mean_def sum_sq_dev_def
      power2_eq_square Let_def)

text \<open>
  C2. For every non-empty table (rows and columns) in which no cell is missing, no two rows
  are equal and \<open>detect_anomalies\<close> finds nothing, the overall score is exactly 100, with all
  four part scores at 100 and the overall score equal to
  \<open>0.3 null + 0.2 duplicate + 0.2 type + 0.3 anomaly\<close>. The hypothesis on the coercion
  failure rate is not needed: without missing cells the type loop of the code counts nothing.
\<close>

theorem perfect_table_scores_100:
  assumes wf: "wf_df d"
    and nonempty: "rows d \<noteq> []" "columns d \<noteq> []"
    and no_null: "\<forall>r\<in>set (rows d). Null \<notin> set r"
    and no_dup: "distinct (rows d)"
    and no_anomaly: "detect_anomalies d = []"
  shows "overall_score (get_data_quality_score to_numeric d) = Finite 100 \<and>
         null_score (get_data_quality_score to_numeric d) = Finite 100 \<and>
         duplicate_score (get_data_quality_score to_numeric d) = Finite 100 \<and>
         type_score (get_data_quality_score to_numeric d) = Finite 100 \<and>
         anomaly_score (get_data_quality_score to_numeric d) = Finite 100 \<and>
         overall_score (get_data_quality_score to_numeric d) =
           np_round 2
             (np_add (np_add (np_add
                (np_mul (null_score (get_data_quality_score to_numeric d)) (Finite (3 / 10)))
                (np_mul (duplicate_score (get_data_quality_score to_numeric d)) (Finite (2 / 10))))
                (np_mul (type_score (get_data_quality_score to_numeric d)) (Finite (2 / 10))))
                (np_mul (anomaly_score (get_data_quality_score to_numeric d)) (Finite (3 / 10))))"
proof -
  have nulls: "df_isna_sum_sum d = 0"
    using wf no_null by (rule df_isna_sum_sum_no_null)
  have dups: "count_true (df_duplicated KeepFirst d) = 0"
    using no_dup by (rule duplicated_first_distinct)
  have types: "type_issues to_numeric d = 0"
    using wf no_null nonempty(1) by (rule type_issues_no_null)
  have cells: "int (df_len d) * int (length (columns d)) \<noteq> 0" and len: "0 < df_len d"
    using nonempty by (simp_all add: df_len_def)
  have r100: "py_round 2 100 = 100"
    using py_round_of_int [of 2 100] by simp
  have "get_data_quality_score to_numeric d =
           \<lparr> overall_score = Finite 100, null_score = Finite 100, duplicate_score = Finite 100,
             type_score = Finite 100, anomaly_score = Finite 100, issues_count = 0 \<rparr>"
    using cells len
    by (simp add: get_data_quality_score_def Let_def nulls dups types no_anomaly
        np_true_divide_def np_sub_def py_max0_def r100)
  then show ?thesis
    by (simp add: r100)
qed

theorem perfect_table_scores_100_witness:
  "wf_df clean_table \<and> rows clean_table \<noteq> [] \<and> columns clean_table \<noteq> [] \<and>
   list_all (\<lambda>r. Null \<notin> set r) (rows clean_table) \<and> distinct (rows clean_table) \<and>
   detect_anomalies clean_table = [] \<and>
   overall_score (get_data_quality_score numeric_parser clean_table) = Finite 100"
proof -
  have h: "wf_df clean_table" "rows clean_table \<noteq> []" "columns clean_table \<noteq> []"
    "\<forall>r\<in>set (rows clean_table). Null \<notin> set r" "distinct (rows clean_table)"
    by (simp_all add: clean_table_def wf_df_def)
  from perfect_table_scores_100 [OF h clean_table_anomalies, of numeric_parser]
  show ?thesis
    using h clean_table_anomalies by (simp add: list_all_iff)
qed


section \<open>Duplicates: removal, then detection\<close>

lemma kept_first_Cons:
  "kept_first seen (r # rs) =
     (if r \<in> set seen then kept_first (r # seen) rs else r # kept_first (r # seen) rs)"
  by (simp add: kept_first_def)

lemma kept_first_distinct:
  "distinct (kept_first seen rs) \<and> set (kept_first seen rs) \<inter> set seen = {}"
proof (induction rs arbitrary: seen)
  case Nil
  show ?case by (simp add: kept_first_def)
next
  case (Cons r rs)
  from Cons.IH [of "r # seen"] show ?case
    by (auto simp: kept_first_Cons)
qed

lemma kept_first_nonempty: "rs \<noteq> [] \<Longrightarrow> kept_first [] rs \<noteq> []"
  by (cases rs) (simp_all add: kept_first_Cons)

lemma count_list_distinct: "distinct xs \<Longrightarrow> x \<in> set xs \<Longrightarrow> count_list xs x = 1"
  by (induction xs) (auto simp: count_list_0_iff)

lemma no_marks_distinct:
  "distinct xs \<Longrightarrow> count_true (duplicated_marks KeepNone xs) = 0"
  by (simp add: duplicated_marks_def count_true_def filter_empty_conv count_list_distinct)

lemma detect_duplicates_none:
  assumes "rows d \<noteq> []" and "df_empty d \<or> distinct (rows d)"
  shows "detect_duplicates d =
           Inr [(''duplicate_count'', PyInt 0), (''duplicate_percentage'', PyFloat (Finite 0)),
                (''duplicate_rows'', PyInt 0)]"
proof -
  have "count_true (df_duplicated KeepNone d) = 0"
  proof (cases "df_empty d")
    case True
    then show ?thesis by (simp add: df_duplicated_def count_true_def)
  next
    case False
    with assms(2) show ?thesis by (simp add: df_duplicated_def no_marks_distinct)
  qed
  moreover have "py_round 2 0 = 0"
    using py_round_of_int [of 2 0] by simp
  ultimately show ?thesis
    using assms(1) by (simp add: detect_duplicates_def py_true_divide_def df_len_def)
qed

lemma working_rebind_df: "working (rebind_df d s) = d"
  by (simp add: working_def rebind_df_def)

lemma working_log_change: "working (log_change m s) = working s"
  by (simp add: working_def log_change_def)

lemma drop_duplicates_first:
  "drop_duplicates None KeepFirst d
     = Inr (if df_empty d then d else d\<lparr> rows := kept_first [] (rows d) \<rparr>)"
  by (simp add: drop_duplicates_def df_filter_rows_def duplicated_marks_def kept_first_def)

lemma remove_duplicates_first:
  "fst (remove_duplicates None KeepFirst s) = None \<and>
   working (snd (remove_duplicates None KeepFirst s))
     = (if df_empty (working s) then working s
        else (working s)\<lparr> rows := kept_first [] (rows (working s)) \<rparr>)"
  by (simp add: remove_duplicates_def drop_duplicates_first Let_def working_rebind_df
      working_log_change)

text \<open>
  C7. For every cleaner whose working table has at least one row,
  \<open>remove_duplicates\<close> with \<open>keep='first'\<close> and no column subset returns without raising, and
  \<open>detect_duplicates\<close> on the resulting table returns a report whose \<open>duplicate_count\<close> is 0
  (with it the percentage and \<open>duplicate_rows\<close>).
\<close>

theorem remove_duplicates_then_detect_duplicates:
  assumes "rows (working s) \<noteq> []"
  shows "fst (remove_duplicates None KeepFirst s) = None \<and>
         detect_duplicates (working (snd (remove_duplicates None KeepFirst s))) =
           Inr [(''duplicate_count'', PyInt 0), (''duplicate_percentage'', PyFloat (Finite 0)),
                (''duplicate_rows'', PyInt 0)]"
proof -
  let ?d = "working (snd (remove_duplicates None KeepFirst s))"
  have "rows ?d \<noteq> []"
    using assms by (simp add: remove_duplicates_first kept_first_nonempty)
  moreover have "df_empty ?d \<or> distinct (rows ?d)"
    by (simp add: remove_duplicates_first kept_first_distinct)
  ultimately show ?thesis
    by (simp add: detect_duplicates_none remove_duplicates_first)
qed

lemma repeated_working: "working repeated_cleaner = repeated_table"
  by (simp add: repeated_cleaner_def cleaner_init_def working_def)

theorem remove_duplicates_then_detect_duplicates_witness:
  "rows (working repeated_cleaner) \<noteq> [] \<and>
   rows (working (snd (remove_duplicates None KeepFirst repeated_cleaner)))
     = [[Num 1, Str ''a''], [Num 2, Null]] \<and>
   changes (snd (remove_duplicates None KeepFirst repeated_cleaner))
     = [''Removed 3 duplicate rows''] \<and>
   detect_duplicates (working (snd (remove_duplicates None KeepFirst repeated_cleaner))) =
     Inr [(''duplicate_count'', PyInt 0), (''duplicate_percentage'', PyFloat (Finite 0)),
          (''duplicate_rows'', PyInt 0)]"
proof -
  have ne: "rows (working repeated_cleaner) \<noteq> []"
    by (simp add: repeated_working repeated_table_def)
  have r: "rows (working (snd (remove_duplicates None KeepFirst repeated_cleaner)))
     = [[Num 1, Str ''a''], [Num 2, Null]]"
    by (simp add: remove_duplicates_first repeated_working repeated_table_def df_empty_def
        kept_first_def)
  have three: "str_of_nat 3 = ''3''"
    by code_simp
  have c: "changes (snd (remove_duplicates None KeepFirst repeated_cleaner))
     = [''Removed 3 duplicate rows'']"
    by (simp add: remove_duplicates_def drop_duplicates_first Let_def working_def
        repeated_table_def df_empty_def kept_first_def df_len_def
        log_change_def rebind_df_def repeated_cleaner_def cleaner_init_def three)
  from remove_duplicates_then_detect_duplicates [OF ne] ne r c show ?thesis
    by simp
qed

section \<open>Outliers: the IQR filter drops missing values\<close>

lemma filter_by_column:
  "rows (df_filter_rows (map P (col_cells d j)) d) = filter (\<lambda>r. P (r ! j)) (rows d)"
proof -
  have "map snd (filter fst (zip (map (\<lambda>r. P (r ! j)) rs) rs)) = filter (\<lambda>r. P (r ! j)) rs"
    for rs :: "cell list list"
    by (induction rs) simp_all
  then show ?thesis
    by (simp add: df_filter_rows_def col_cells_def comp_def)
qed

lemma columns_df_filter_rows: "columns (df_filter_rows flags d) = columns d"
  by (simp add: df_filter_rows_def)

lemma np_ge_present: "np_ge (cell_float c) x \<Longrightarrow> c \<noteq> Null"
  by (cases c) (simp_all add: cell_float_def)

lemma iqr_step:
  assumes "r \<in> set (rows (df_filter_rows (iqr_mask threshold (col_cells d j)) d))"
  shows "r \<in> set (rows d) \<and> r ! j \<noteq> Null"
  using assms unfolding iqr_mask_def Let_def filter_by_column
  by (auto dest: np_ge_present)

lemma col_index_same_columns:
  "columns d' = columns d \<Longrightarrow> col_index d' c = col_index d c"
  by (simp add: col_index_def col_names_def)

lemma col_dtype_same_columns:
  "columns d' = columns d \<Longrightarrow> col_dtype d' j = col_dtype d j"
  by (simp add: col_dtype_def)

lemma outlier_loop_iqr:
  assumes "outlier_loop ''iqr'' threshold cols s = (e, s')"
  shows "columns (working s') = columns (working s) \<and>
         set (rows (working s')) \<subseteq> set (rows (working s)) \<and>
         (e = None \<longrightarrow>
            (\<forall>col\<in>set cols. \<forall>j. col_index (working s) col = Some j \<longrightarrow>
               is_number_dtype (col_dtype (working s) j) \<and>
               (\<forall>r\<in>set (rows (working s')). r ! j \<noteq> Null)))"
  using assms
proof (induction cols arbitrary: s)
  case Nil
  then show ?case by simp
next
  case (Cons col cols)
  show ?case
  proof (cases "col_index (working s) col")
    case None
    with Cons.prems have "outlier_loop ''iqr'' threshold cols s = (e, s')" by simp
    from Cons.IH [OF this] None show ?thesis by auto
  next
    case (Some j)
    show ?thesis
    proof (cases "is_number_dtype (col_dtype (working s) j)")
      case False
      with Some Cons.prems show ?thesis by auto
    next
      case True
      let ?d = "df_filter_rows (iqr_mask threshold (col_cells (working s) j)) (working s)"
      let ?s1 = "rebind_df ?d s"
      from Some True Cons.prems have run: "outlier_loop ''iqr'' threshold cols ?s1 = (e, s')"
        by simp
      have w1: "working ?s1 = ?d" by (rule working_rebind_df)
      have c1: "columns ?d = columns (working s)" by (rule columns_df_filter_rows)
      note ih = Cons.IH [OF run, unfolded w1]
      from ih have cols': "columns (working s') = columns (working s)"
        using c1 by simp
      from ih have sub: "set (rows (working s')) \<subseteq> set (rows ?d)" by simp
      have step: "\<forall>r\<in>set (rows ?d). r \<in> set (rows (working s)) \<and> r ! j \<noteq> Null"
        using iqr_step by blast
      have rest: "\<forall>c\<in>set cols. \<forall>i. col_index (working s) c = Some i \<longrightarrow>
               is_number_dtype (col_dtype (working s) i) \<and>
               (\<forall>r\<in>set (rows (working s')). r ! i \<noteq> Null)" if "e = None"
        using ih that col_index_same_columns [OF c1] col_dtype_same_columns [OF c1] by simp
      show ?thesis
        using cols' sub step rest Some True by auto
    qed
  qed
qed

text \<open>
  C10. When \<open>remove_outliers\<close> with the IQR method returns, every row that remains was a row
  of the table before, and in every column the call processed (a column of its list that the
  table has, necessarily of a number dtype) the row holds a value: the rows with a missing
  value there are gone, as the comparisons with the bounds are false on \<open>nan\<close>.
\<close>

theorem remove_outliers_iqr_drops_missing:
  assumes "fst (remove_outliers columns_arg ''iqr'' threshold s) = None"
    and "col \<in> set (case columns_arg of None \<Rightarrow> number_columns (working s) | Some cs \<Rightarrow> cs)"
    and "col_index (working s) col = Some j"
    and "r \<in> set (rows (working (snd (remove_outliers columns_arg ''iqr'' threshold s))))"
  shows "r ! j \<noteq> Null \<and> r \<in> set (rows (working s)) \<and>
         is_number_dtype (col_dtype (working s) j)"
proof -
  let ?cols = "case columns_arg of None \<Rightarrow> number_columns (working s) | Some cs \<Rightarrow> cs"
  obtain e s1 where loop: "outlier_loop ''iqr'' threshold ?cols s = (e, s1)"
    by (cases "outlier_loop ''iqr'' threshold ?cols s")
  from assms(1) loop have e: "e = None"
    by (cases e) (simp_all add: remove_outliers_def Let_def)
  with loop have w: "working (snd (remove_outliers columns_arg ''iqr'' threshold s)) = working s1"
    by (simp add: remove_outliers_def Let_def working_log_change)
  from outlier_loop_iqr [OF loop] e assms(2,3,4) show ?thesis
    unfolding w by blast
qed

lemma readings_mask:
  "iqr_mask (3 / 2) [Num 1, Num 2, Null, Num 3, Num 10] = [True, True, False, True, False]"
  by code_simp

lemma readings_working: "working readings_cleaner = readings_table"
  by (simp add: readings_cleaner_def cleaner_init_def working_def)

lemma readings_outliers:
  "fst (remove_outliers None ''iqr'' (3 / 2) readings_cleaner) = None \<and>
   rows (working (snd (remove_outliers None ''iqr'' (3 / 2) readings_cleaner)))
     = [[Str ''a'', Num 1], [Str ''b'', Num 2], [Str ''d'', Num 3]]"
proof -
  have cols: "number_columns readings_table = [''x'']"
    by (simp add: number_columns_def readings_table_def frame_simps)
  have ix: "col_index readings_table ''x'' = Some 1"
    by (simp add: col_index_def readings_table_def col_names_def)
  have cells: "col_cells readings_table (Suc 0) = [Num 1, Num 2, Null, Num 3, Num 10]"
    by (simp add: col_cells_def readings_table_def)
  have dt: "is_number_dtype (col_dtype readings_table (Suc 0))"
    by (simp add: readings_table_def frame_simps)
  have filtered: "rows (df_filter_rows [True, True, False, True, False] readings_table)
     = [[Str ''a'', Num 1], [Str ''b'', Num 2], [Str ''d'', Num 3]]"
    by (simp add: df_filter_rows_def readings_table_def)
  show ?thesis
    by (simp add: remove_outliers_def Let_def readings_working cols ix cells dt readings_mask
        working_rebind_df working_log_change filtered split: prod.split)
qed

theorem remove_outliers_iqr_drops_missing_witness:
  "fst (remove_outliers None ''iqr'' (3 / 2) readings_cleaner) = None \<and>
   ''x'' \<in> set (number_columns (working readings_cleaner)) \<and>
   col_index (working readings_cleaner) ''x'' = Some 1 \<and>
   [Str ''c'', Null] \<in> set (rows (working readings_cleaner)) \<and>
   rows (working (snd (remove_outliers None ''iqr'' (3 / 2) readings_cleaner)))
     = [[Str ''a'', Num 1], [Str ''b'', Num 2], [Str ''d'', Num 3]] \<and>
   [Str ''a'', Num 1] ! 1 \<noteq> Null"
proof -
  have cols: "''x'' \<in> set (case None of None \<Rightarrow> number_columns (working readings_cleaner)
                             | Some cs \<Rightarrow> cs)"
    by (simp add: readings_working number_columns_def readings_table_def frame_simps)
  have ix: "col_index (working readings_cleaner) ''x'' = Some 1"
    by (simp add: readings_working col_index_def readings_table_def col_names_def)
  have r: "[Str ''a'', Num 1]
             \<in> set (rows (working (snd (remove_outliers None ''iqr'' (3 / 2) readings_cleaner))))"
    by (simp add: readings_outliers)
  from remove_outliers_iqr_drops_missing [OF conjunct1 [OF readings_outliers] cols ix r]
  show ?thesis
    using cols ix readings_outliers by (simp add: readings_working readings_table_def)
qed

section \<open>Correlations\<close>



















lemma sqrt_four_squared: "sqrt (2 * 2) = 2"
  by simp









text \<open>
  C5 (as the code has it). \<open>get_correlation_matrix\<close> returns the empty mapping exactly when the
  table has no number column; with exactly one number column it returns the mapping of that
  column to its correlation with itself.
\<close>

theorem correlation_matrix_empty_iff:
  "(get_correlation_matrix d = [] \<longleftrightarrow> numeric_positions d = []) \<and>
   (\<forall>j. numeric_positions d = [j] \<longrightarrow>
      get_correlation_matrix d =
        [(col_name d j,
          [(col_name d j, map_option (py_round 3) (pearson (col_cells d j) (col_cells d j)))])])"
  by (auto simp: get_correlation_matrix_def Let_def)

lemma sqrt_2500: "sqrt 2500 = 50"
  by (rule real_sqrt_unique) (simp_all add: power2_eq_square)

lemma clean_table_numeric: "numeric_positions clean_table = [1]"
  by (simp add: numeric_positions_def col_positions_def clean_table_def col_dtype_def
      is_number_dtype_def upt_rec)

lemma clean_table_matrix:
  "get_correlation_matrix clean_table = [(''age'', [(''age'', Some 1)])]"
proof -
  have r: "py_round 3 1 = 1"
    using py_round_of_int [of 3 1] by simp
  have p: "pearson (col_cells clean_table (Suc 0)) (col_cells clean_table (Suc 0)) = Some 1"
    by (simp add: pearson_def paired_def col_cells_def clean_table_def Let_def power2_eq_square
        sqrt_2500)
  have c: "col_name clean_table (Suc 0) = ''age''"
    by (simp add: col_name_def clean_table_def)
  show ?thesis
    by (simp add: get_correlation_matrix_def clean_table_numeric p c r)
qed

theorem correlation_matrix_empty_iff_witness:
  "numeric_positions clean_table = [1] \<and> numeric_positions names_table = [] \<and>
   get_correlation_matrix names_table = [] \<and>
   get_correlation_matrix clean_table =
     [(col_name clean_table 1,
       [(col_name clean_table 1,
         map_option (py_round 3) (pearson (col_cells clean_table 1) (col_cells clean_table 1)))])]"
proof -
  have n: "numeric_positions names_table = []"
    by (simp add: numeric_positions_def col_positions_def names_table_def col_dtype_def
        is_number_dtype_def)
  from correlation_matrix_empty_iff [of names_table] correlation_matrix_empty_iff [of clean_table]
  show ?thesis
    using n clean_table_numeric by simp
qed

text \<open>
  \<open>clean_table\<close> has one number column, \<open>age\<close>, and its matrix is not empty.
\<close>

theorem one_numeric_column_counterexample:
  "length (numeric_positions clean_table) = 1 \<and>
   get_correlation_matrix clean_table = [(''age'', [(''age'', Some 1)])] \<and>
   get_correlation_matrix clean_table \<noteq> []"
  by (simp add: clean_table_numeric clean_table_matrix)


section \<open>The pipeline never writes to the original snapshot\<close>

lemma untouched_refl: "apart a s \<Longrightarrow> untouched a s s"
  by (simp add: untouched_def apart_def)

lemma untouched_apart: "untouched a s s' \<Longrightarrow> apart a s'"
  by (simp add: untouched_def apart_def)

lemma untouched_trans: "untouched a s s1 \<Longrightarrow> untouched a s1 s2 \<Longrightarrow> untouched a s s2"
  by (simp add: untouched_def)

lemma untouched_rebind_df: "apart a s \<Longrightarrow> untouched a s (rebind_df d s)"
  by (simp add: untouched_def apart_def rebind_df_def)

lemma untouched_update_df_inplace: "apart a s \<Longrightarrow> untouched a s (update_df_inplace f s)"
  by (simp add: untouched_def apart_def update_df_inplace_def)

lemma untouched_log_change: "apart a s \<Longrightarrow> untouched a s (log_change m s)"
  by (simp add: untouched_def apart_def log_change_def)

lemma untouched_then_log:
  "untouched a s s1 \<Longrightarrow> untouched a s (log_change m s1)"
  by (simp add: untouched_def log_change_def)

lemma untouched_reset: "apart a s \<Longrightarrow> untouched a s (reset s)"
  by (simp add: untouched_def apart_def reset_def rebind_df_def)

lemma untouched_remove_empty_rows: "apart a s \<Longrightarrow> untouched a s (snd (remove_empty_rows s))"
  by (simp add: remove_empty_rows_def Let_def untouched_rebind_df untouched_then_log)

lemma untouched_remove_empty_columns:
  "apart a s \<Longrightarrow> untouched a s (snd (remove_empty_columns s))"
  by (simp add: remove_empty_columns_def Let_def untouched_rebind_df untouched_then_log)

lemma untouched_str_loop: "apart a s \<Longrightarrow> untouched a s (snd (str_loop f cols s))"
proof (induction cols arbitrary: s)
  case Nil
  then show ?case by (simp add: untouched_refl)
next
  case (Cons col cols)
  show ?case
  proof (cases "col_index (working s) col")
    case None
    with Cons show ?thesis by simp
  next
    case (Some j)
    let ?s1 = "update_df_inplace (\<lambda>d. set_column j (map (str_method f) (col_cells d j)) d) s"
    from Cons.prems have u: "untouched a s ?s1" by (rule untouched_update_df_inplace)
    then have "untouched a ?s1 (snd (str_loop f cols ?s1))"
      by (intro Cons.IH untouched_apart)
    with u have "untouched a s (snd (str_loop f cols ?s1))" by (rule untouched_trans)
    with Some Cons.prems show ?thesis by (simp add: untouched_refl)
  qed
qed

lemma untouched_trim_whitespace:
  assumes "apart a s"
  shows "untouched a s (snd (trim_whitespace columns_arg s))"
proof -
  let ?cols = "case columns_arg of None \<Rightarrow> object_columns (working s) | Some cs \<Rightarrow> cs"
  obtain e s1 where l: "str_loop py_strip ?cols s = (e, s1)"
    by (cases "str_loop py_strip ?cols s")
  from untouched_str_loop [OF assms, of py_strip ?cols] l have u: "untouched a s s1"
    by simp
  show ?thesis
    by (cases e) (simp_all add: trim_whitespace_def Let_def l u untouched_then_log)
qed

lemma untouched_remove_duplicates:
  "apart a s \<Longrightarrow> untouched a s (snd (remove_duplicates subset_cols k s))"
  by (simp add: remove_duplicates_def Let_def untouched_rebind_df untouched_then_log
      untouched_refl split: sum.split)

lemma untouched_fill_loop: "apart a s \<Longrightarrow> untouched a s (fill_loop method fill_value cols s)"
proof (induction cols arbitrary: s)
  case Nil
  then show ?case by (simp add: untouched_refl)
next
  case (Cons col cols)
  show ?case
  proof (cases "col_index (working s) col")
    case None
    with Cons show ?thesis by simp
  next
    case (Some j)
    let ?s1 = "update_df_inplace
                 (\<lambda>d. set_column j (fill_column method fill_value (col_dtype d j) (col_cells d j)) d)
                 s"
    from Cons.prems have u: "untouched a s ?s1" by (rule untouched_update_df_inplace)
    then have "untouched a ?s1 (fill_loop method fill_value cols ?s1)"
      by (intro Cons.IH untouched_apart)
    with u have "untouched a s (fill_loop method fill_value cols ?s1)" by (rule untouched_trans)
    with Some Cons show ?thesis by simp
  qed
qed

lemma untouched_fill_missing_values:
  "apart a s \<Longrightarrow> untouched a s (snd (fill_missing_values method columns_arg fill_value s))"
  by (simp add: fill_missing_values_def Let_def untouched_fill_loop untouched_then_log
      untouched_refl split: option.split)

lemma untouched_standardize_column_names:
  "apart a s \<Longrightarrow> untouched a s (snd (standardize_column_names s))"
  by (simp add: standardize_column_names_def untouched_update_df_inplace untouched_then_log)

lemma untouched_normalize_text_case:
  assumes "apart a s"
  shows "untouched a s (snd (normalize_text_case columns_arg text_case s))"
proof -
  let ?cols = "case columns_arg of None \<Rightarrow> object_columns (working s) | Some cs \<Rightarrow> cs"
  let ?looped = "if text_case = ''lower'' then str_loop py_lower ?cols s
             else if text_case = ''upper'' then str_loop py_upper ?cols s
             else if text_case = ''title'' then str_loop py_title ?cols s
             else (None, s)"
  obtain e s1 where l: "?looped = (e, s1)"
    by (cases ?looped)
  have "untouched a s (snd ?looped)"
    using assms by (simp add: untouched_str_loop untouched_refl)
  with l have u: "untouched a s s1"
    by simp
  have "normalize_text_case columns_arg text_case s =
          (case (e, s1) of
             (Some e, s1) \<Rightarrow> (Some e, s1)
           | (None, s1) \<Rightarrow>
               (None,
                log_change
                  (''Normalized text case to '' @ text_case @ '' in ''
                   @ str_of_nat (length ?cols) @ '' columns'') s1))"
    unfolding normalize_text_case_def Let_def l [symmetric] ..
  then show ?thesis
    by (cases e) (simp_all add: u untouched_then_log)
qed

lemma untouched_outlier_loop:
  "apart a s \<Longrightarrow> untouched a s (snd (outlier_loop method threshold cols s))"
proof (induction cols arbitrary: s)
  case Nil
  then show ?case by (simp add: untouched_refl)
next
  case (Cons col cols)
  have step: "untouched a s (snd (outlier_loop method threshold cols (rebind_df d s)))" for d
  proof -
    from Cons.prems have u: "untouched a s (rebind_df d s)" by (rule untouched_rebind_df)
    then have "untouched a (rebind_df d s) (snd (outlier_loop method threshold cols (rebind_df d s)))"
      by (intro Cons.IH untouched_apart)
    with u show ?thesis by (rule untouched_trans)
  qed
  show ?case
  proof (cases "col_index (working s) col")
    case None
    with Cons show ?thesis by simp
  next
    case (Some j)
    consider "method = ''iqr''" | "method \<noteq> ''iqr''" "method = ''zscore''"
      | "method \<noteq> ''iqr''" "method \<noteq> ''zscore''"
      by blast
    then show ?thesis
    proof cases
      case 1
      with Some Cons.prems step [of "df_filter_rows (iqr_mask threshold (col_cells (working s) j)) (working s)"]
      show ?thesis by (simp add: untouched_refl)
    next
      case 2
      with Some Cons.prems step [of "df_filter_rows (zscore_mask threshold (col_cells (working s) j)) (working s)"]
      show ?thesis by (simp add: untouched_refl)
    next
      case 3
      with Some Cons show ?thesis by simp
    qed
  qed
qed

lemma untouched_remove_outliers:
  assumes "apart a s"
  shows "untouched a s (snd (remove_outliers columns_arg method threshold s))"
proof -
  let ?cols = "case columns_arg of None \<Rightarrow> number_columns (working s) | Some cs \<Rightarrow> cs"
  obtain e s1 where l: "outlier_loop method threshold ?cols s = (e, s1)"
    by (cases "outlier_loop method threshold ?cols s")
  from untouched_outlier_loop [OF assms, of "method" threshold ?cols] l have u: "untouched a s s1"
    by simp
  show ?thesis
    by (cases e) (simp_all add: remove_outliers_def Let_def l u untouched_then_log)
qed

lemma untouched_convert_loop:
  "apart a s \<Longrightarrow> untouched a s (convert_loop tn td ast cts s)"
proof (induction cts arbitrary: s)
  case Nil
  then show ?case by (simp add: untouched_refl)
next
  case (Cons ct cts)
  obtain col target where ct: "ct = (col, target)" by (cases ct)
  have via: "untouched a s (convert_loop tn td ast cts s1)" if "untouched a s s1" for s1
  proof -
    from that have "untouched a s1 (convert_loop tn td ast cts s1)"
      by (intro Cons.IH untouched_apart)
    with that show ?thesis by (rule untouched_trans)
  qed
  show ?case
  proof (cases "col_index (working s) col")
    case None
    with Cons ct show ?thesis by simp
  next
    case (Some j)
    let ?series = "col_cells (working s) j"
    let ?converted =
      "if target = ''numeric''
       then (case tn ?series of Inl msg \<Rightarrow> Inl msg | Inr ys \<Rightarrow> Inr (numeric_result_dtype ys, ys))
       else if target = ''datetime''
       then (case td ?series of Inl msg \<Rightarrow> Inl msg | Inr ys \<Rightarrow> Inr (Datetime64DT, ys))
       else if target \<in> set [''string'', ''object'']
       then ast ''str'' (col_dtype (working s) j, ?series)
       else ast target (col_dtype (working s) j, ?series)"
    have unfold: "convert_loop tn td ast (ct # cts) s =
        (case ?converted of
           Inl msg \<Rightarrow>
             convert_loop tn td ast cts
               (log_change
                  (''Warning: Could not convert '' @ col @ '' to '' @ target @ '': '' @ msg) s)
         | Inr (t, ys) \<Rightarrow>
             convert_loop tn td ast cts
               (update_df_inplace (\<lambda>d. set_dtype j t (set_column j ys d)) s))"
      unfolding ct by (simp only: convert_loop.simps Let_def Some option.case)
    show ?thesis
    proof (cases ?converted)
      case (Inl msg)
      with unfold show ?thesis
        by (simp only: sum.case) (intro via untouched_log_change Cons.prems)
    next
      case (Inr p)
      obtain t ys where p: "p = (t, ys)" by (cases p)
      from Inr p unfold show ?thesis
        by (simp only: sum.case prod.case) (intro via untouched_update_df_inplace Cons.prems)
    qed
  qed
qed

lemma untouched_convert_dtypes:
  "apart a s \<Longrightarrow> untouched a s (snd (convert_dtypes tn td ast cts s))"
  by (simp add: convert_dtypes_def untouched_convert_loop)

lemma untouched_call: "apart a s \<Longrightarrow> untouched a s (snd (call tn td ast c s))"
  by (cases c)
    (simp_all add: untouched_remove_empty_rows untouched_remove_empty_columns
      untouched_trim_whitespace untouched_remove_duplicates untouched_fill_missing_values
      untouched_standardize_column_names untouched_normalize_text_case
      untouched_remove_outliers untouched_convert_dtypes untouched_reset)

lemma untouched_run_calls: "apart a s \<Longrightarrow> untouched a s (run_calls tn td ast cs s)"
proof (induction cs arbitrary: s)
  case Nil
  then show ?case by (simp add: untouched_refl)
next
  case (Cons c cs)
  from Cons.prems have u: "untouched a s (snd (call tn td ast c s))" by (rule untouched_call)
  then have "untouched a (snd (call tn td ast c s)) (run_calls tn td ast cs (snd (call tn td ast c s)))"
    by (intro Cons.IH untouched_apart)
  with u show ?case by (simp add: untouched_trans)
qed

text \<open>
  C9. A cleaner is built from the frame at address \<open>a\<close> of a store \<open>h\<close>. After every
  sequence of calls (any of the nine cleaning methods and \<open>reset\<close>, whether or not a call
  raised), \<open>original_df\<close> still refers to the same object and that object is still the frame
  that was loaded; \<open>reset\<close> then makes the working table equal to it and empties the change
  log.
\<close>

theorem original_snapshot_preserved:
  "original (run_calls tn td ast calls (cleaner_init h n a)) = h a \<and>
   original_df (run_calls tn td ast calls (cleaner_init h n a)) = original_df (cleaner_init h n a) \<and>
   working (reset (run_calls tn td ast calls (cleaner_init h n a))) = h a \<and>
   changes (reset (run_calls tn td ast calls (cleaner_init h n a))) = []"
proof -
  let ?start = "cleaner_init h n a"
  let ?s = "run_calls tn td ast calls ?start"
  have "apart (original_df ?start) ?start"
    by (simp add: apart_def cleaner_init_def)
  then have u: "untouched (original_df ?start) ?start ?s"
    by (rule untouched_run_calls)
  then have same: "original_df ?s = original_df ?start"
    and kept: "heap ?s (original_df ?start) = heap ?start (original_df ?start)"
    unfolding untouched_def by blast+
  have init: "heap ?start (original_df ?start) = h a"
    by (simp add: cleaner_init_def)
  from same kept init have o: "original ?s = h a"
    by (simp add: original_def)
  then have "working (reset ?s) = h a"
    by (simp add: reset_def working_def rebind_df_def original_def)
  moreover have "changes (reset ?s) = []"
    by (simp add: reset_def)
  ultimately show ?thesis
    using o same by simp
qed

lemma caller_frame_preserved:
  assumes "a < n"
  shows "heap (run_calls tn td ast calls (cleaner_init h n a)) a = h a"
proof -
  from assms have "apart a (cleaner_init h n a)"
    by (simp add: apart_def cleaner_init_def)
  then have "untouched a (cleaner_init h n a) (run_calls tn td ast calls (cleaner_init h n a))"
    by (rule untouched_run_calls)
  with assms show ?thesis
    by (simp add: untouched_def cleaner_init_def)
qed

text \<open>
  A run that does change the working table: the duplicates of \<open>repeated_table\<close> are removed,
  the snapshot keeps all five rows, and \<open>reset\<close> brings them back.
\<close>

theorem original_snapshot_preserved_witness:
  "rows (working (run_calls numeric_parser datetime_parser (\<lambda>t x. Inr x)
                    [Remove_duplicates None KeepFirst] repeated_cleaner))
     = [[Num 1, Str ''a''], [Num 2, Null]] \<and>
   original (run_calls numeric_parser datetime_parser (\<lambda>t x. Inr x)
               [Remove_duplicates None KeepFirst] repeated_cleaner) = repeated_table \<and>
   working (reset (run_calls numeric_parser datetime_parser (\<lambda>t x. Inr x)
                     [Remove_duplicates None KeepFirst] repeated_cleaner)) = repeated_table \<and>
   changes (reset (run_calls numeric_parser datetime_parser (\<lambda>t x. Inr x)
                     [Remove_duplicates None KeepFirst] repeated_cleaner)) = []"
proof -
  have r: "rows (working (snd (remove_duplicates None KeepFirst repeated_cleaner)))
     = [[Num 1, Str ''a''], [Num 2, Null]]"
    by (simp add: remove_duplicates_first repeated_working repeated_table_def df_empty_def
        kept_first_def)
  from original_snapshot_preserved [of numeric_parser datetime_parser "\<lambda>t x. Inr x"
      "[Remove_duplicates None KeepFirst]" "\<lambda>a. repeated_table" 1 0]
  show ?thesis
    using r by (simp add: repeated_cleaner_def)
qed

end
